theory Spec2Isabelle
  imports Complex_Main "HOL-Library.AList"
begin

section \<open>Python values, errors and string formatting\<close>

text \<open>
  The module \<^verbatim>\<open>oddt/scoring/functions/PLECscore.py\<close> is glue code around external
  collaborators. Exceptions are values of \<open>py_error\<close>; the string carried by an error names
  the offending object or is the message of the exception.
\<close>

datatype py_error =
    ValueError string
  | TypeError string
  | AttributeError string
  | UnboundLocalError string
  | IndexError string
  | IOError string

text \<open>
  A float is kept as the decimal literal that denotes it: \<^verbatim>\<open>1e-4\<close> is \<open>Decimal 1 (-4)\<close>.
  The module does no arithmetic on floats, it only passes them on.
\<close>

datatype pyfloat = Decimal int int

fun decimal_value :: "pyfloat \<Rightarrow> real" where
  "decimal_value (Decimal m e) =
     (if 0 \<le> e then of_int m * 10 ^ nat e else of_int m / 10 ^ nat (- e))"

text \<open>
  Python values that reach the module as model attributes or JSON values.
  \<open>NdArray v\<close> is the numpy array \<^verbatim>\<open>np.array(v)\<close>; its \<^verbatim>\<open>tolist()\<close> is \<open>v\<close>.
\<close>

datatype pyval =
    PyNone
  | PyBool bool
  | PyInt int
  | PyFloat pyfloat
  | PyStr string
  | PyList "pyval list"
  | PyTuple "pyval list"
  | NdArray pyval

text \<open>
  The second argument of \<^verbatim>\<open>isinstance\<close>: a type, a tuple of types, or an object that is
  not a type at all. \<^verbatim>\<open>np.ndarray\<close> is the array type; \<^verbatim>\<open>np.array\<close> is the builtin
  function that builds arrays.
\<close>

datatype classinfo =
    Type_list
  | Type_tuple
  | Type_ndarray
  | Types "classinfo list"
  | Builtin_function string

definition np_array :: classinfo where
  "np_array = Builtin_function ''numpy.array''"

fun has_type :: "pyval \<Rightarrow> classinfo \<Rightarrow> bool" where
  "has_type (PyList xs) Type_list = True"
| "has_type (PyTuple xs) Type_tuple = True"
| "has_type (NdArray v) Type_ndarray = True"
| "has_type v c = False"

fun is_type :: "classinfo \<Rightarrow> bool" where
  "is_type Type_list = True"
| "is_type Type_tuple = True"
| "is_type Type_ndarray = True"
| "is_type c = False"

text \<open>
  \<^verbatim>\<open>isinstance(v, c)\<close> raises a TypeError unless \<open>c\<close> is a type or a tuple of types.
\<close>

definition isinstance :: "pyval \<Rightarrow> classinfo \<Rightarrow> py_error + bool" where
  "isinstance v c =
     (case c of
        Types cs \<Rightarrow>
          (if list_all is_type cs then Inr (list_ex (has_type v) cs)
           else Inl (TypeError ''isinstance() arg 2 must be a type or tuple of types''))
      | _ \<Rightarrow>
          (if is_type c then Inr (has_type v c)
           else Inl (TypeError ''isinstance() arg 2 must be a type or tuple of types'')))"

text \<open>\<^verbatim>\<open>v[0]\<close> on a list or tuple.\<close>

definition item0 :: "pyval \<Rightarrow> py_error + pyval" where
  "item0 v =
     (case v of
        PyList [] \<Rightarrow> Inl (IndexError ''list index out of range'')
      | PyList (x # xs) \<Rightarrow> Inr x
      | PyTuple [] \<Rightarrow> Inl (IndexError ''tuple index out of range'')
      | PyTuple (x # xs) \<Rightarrow> Inr x
      | _ \<Rightarrow> Inl (TypeError ''object is not subscriptable''))"

text \<open>\<^verbatim>\<open>x.tolist()\<close>: only arrays have the method.\<close>

definition tolist :: "pyval \<Rightarrow> py_error + pyval" where
  "tolist v = (case v of NdArray x \<Rightarrow> Inr x | _ \<Rightarrow> Inl (AttributeError ''tolist''))"

text \<open>\<^verbatim>\<open>[x.tolist() for x in attr]\<close>: the first element without the method ends it.\<close>

fun tolist_each :: "pyval list \<Rightarrow> py_error + pyval list" where
  "tolist_each [] = Inr []"
| "tolist_each (x # xs) =
     (case tolist x of
        Inl e \<Rightarrow> Inl e
      | Inr y \<Rightarrow> (case tolist_each xs of Inl e \<Rightarrow> Inl e | Inr ys \<Rightarrow> Inr (y # ys)))"

text \<open>The elements of a list or tuple, for a comprehension over it.\<close>

fun elements :: "pyval \<Rightarrow> pyval list" where
  "elements (PyList xs) = xs"
| "elements (PyTuple xs) = xs"
| "elements v = []"

text \<open>
  What \<^verbatim>\<open>json.dump\<close> accepts: arrays are not serialisable, a tuple is written as a list.
\<close>

fun serializable :: "pyval \<Rightarrow> bool" where
  "serializable (NdArray v) = False"
| "serializable (PyList xs) = list_all serializable xs"
| "serializable (PyTuple xs) = list_all serializable xs"
| "serializable v = True"

fun json_form :: "pyval \<Rightarrow> pyval" where
  "json_form (PyList xs) = PyList (map json_form xs)"
| "json_form (PyTuple xs) = PyList (map json_form xs)"
| "json_form v = v"

text \<open>\<^verbatim>\<open>'%i' % n\<close> for an integer: its decimal digits, with a sign when negative.\<close>

definition digit_char :: "nat \<Rightarrow> char" where
  "digit_char d = ''0123456789'' ! (d mod 10)"

fun str_nat :: "nat \<Rightarrow> string" where
  "str_nat n = (if n < 10 then [digit_char n] else str_nat (n div 10) @ [digit_char (n mod 10)])"

declare str_nat.simps [simp del]

definition str_int :: "int \<Rightarrow> string" where
  "str_int i = (if i < 0 then CHR ''-'' # str_nat (nat (- i)) else str_nat (nat i))"

text \<open>\<^verbatim>\<open>os.path.join(a, b)\<close> on POSIX, for two strings.\<close>

definition path_join :: "string \<Rightarrow> string \<Rightarrow> string" where
  "path_join a b =
     (if b \<noteq> [] \<and> hd b = CHR ''/'' then b
      else if a = [] \<or> last a = CHR ''/'' then a @ b
      else a @ ''/'' @ b)"

text \<open>The same call when the first argument may be \<^verbatim>\<open>None\<close>: that raises.\<close>

definition path_join_opt :: "string option \<Rightarrow> string \<Rightarrow> py_error + string" where
  "path_join_opt a b =
     (case a of
        None \<Rightarrow> Inl (TypeError ''expected str, bytes or os.PathLike object, not NoneType'')
      | Some h \<Rightarrow> Inr (path_join h b))"

section \<open>The objects of the module\<close>

type_synonym protein = string

text \<open>\<^verbatim>\<open>partial(PLEC, depth_ligand=, depth_protein=, size=, count_bits=, sparse=, ignore_hoh=)\<close>\<close>

record plec_func =
  pf_depth_ligand :: int
  pf_depth_protein :: int
  pf_size :: int
  pf_count_bits :: bool
  pf_sparse :: bool
  pf_ignore_hoh :: bool

text \<open>\<^verbatim>\<open>universal_descriptor(plec_func, protein=, shape=, sparse=)\<close>\<close>

record descriptors =
  ud_func :: plec_func
  ud_protein :: "protein option"
  ud_shape :: int
  ud_sparse :: bool

datatype estimator_class = SGDRegressor | MLPRegressor | RandomForestRegressor

text \<open>
  A regressor object: its class, the arguments its constructor was called with, and the
  attributes set on it afterwards (by fitting or by \<^verbatim>\<open>setattr\<close>).
\<close>

record model =
  cls :: estimator_class
  args :: "pyval list"
  kwargs :: "(string \<times> pyval) list"
  attrs :: "string \<rightharpoonup> pyval"

datatype matrix = Csr pyval | Dense pyval

record dataset =
  train_descs :: matrix
  train_target :: pyval
  test_descs :: matrix
  test_target :: pyval

text \<open>
  A \<^verbatim>\<open>PLECscore\<close> instance. The first six fields are those \<^verbatim>\<open>__init__\<close> assigns from its
  arguments (\<open>size_bits\<close> is \<^verbatim>\<open>self.size\<close>); the next three are set by the base scorer's
  constructor; \<open>data\<close> holds the descriptor matrices and targets once the base loader has
  set them.
\<close>

record adapter =
  protein :: "protein option"
  n_jobs :: int
  version :: string
  depth_protein :: int
  depth_ligand :: int
  size_bits :: int
  model :: model
  descriptor_generator :: descriptors
  score_title :: string
  data :: "dataset option"

text \<open>The six fields \<^verbatim>\<open>__init__\<close> assigns from its arguments, and an instance with them replaced.\<close>

type_synonym fields = "protein option \<times> int \<times> string \<times> int \<times> int \<times> int"

definition config :: "adapter \<Rightarrow> fields" where
  "config s = (protein s, n_jobs s, version s, depth_protein s, depth_ligand s, size_bits s)"

fun with_fields :: "fields \<Rightarrow> adapter \<Rightarrow> adapter" where
  "with_fields (p, nj, v, dp, dl, sz) s =
     s\<lparr>protein := p, n_jobs := nj, version := v, depth_protein := dp, depth_ligand := dl,
       size_bits := sz\<rparr>"

datatype file_content =
    Json_file "(string \<times> pyval) list"
  | Pickle_file adapter
  | Csv_file pyval
  | Partial_file

type_synonym files = "string \<rightharpoonup> file_content"

text \<open>The calls to collaborators and the file accesses, in the order they happen.\<close>

datatype event =
    Built_plec_func plec_func
  | Built_descriptors descriptors
  | Built_model model
  | Printed string
  | Called_gen_pdbbind_desc string "int list" string bool bool bool
  | Called_load_pdbbind_desc string "string list" int
  | Called_fit matrix
  | Called_predict matrix
  | Called_metrics string
  | Called_save string
  | Read_json string
  | Opened_for_writing string
  | Wrote_json string

fun is_loader_call :: "event \<Rightarrow> bool" where
  "is_loader_call (Called_load_pdbbind_desc p ts v) = True"
| "is_loader_call e = False"

fun is_json_write :: "event \<Rightarrow> bool" where
  "is_json_write (Opened_for_writing p) = True"
| "is_json_write (Wrote_json p) = True"
| "is_json_write e = False"

fun is_json_read :: "event \<Rightarrow> bool" where
  "is_json_read (Read_json p) = True"
| "is_json_read e = False"

fun is_save_call :: "event \<Rightarrow> bool" where
  "is_save_call (Called_save p) = True"
| "is_save_call e = False"

fun is_built_descriptors :: "event \<Rightarrow> bool" where
  "is_built_descriptors (Built_descriptors d) = True"
| "is_built_descriptors e = False"

fun is_built_model :: "event \<Rightarrow> bool" where
  "is_built_model (Built_model m) = True"
| "is_built_model e = False"

text \<open>
  What the module takes from outside this file: the directory of the module file, which
  paths can be written, the class-level attributes inherited from the base scorer class,
  the descriptor computation, the benchmark's partitioning, the regressors' \<^verbatim>\<open>fit\<close> and
  \<^verbatim>\<open>predict\<close>, the three metrics with their \<^verbatim>\<open>%.4f\<close> formatting, and the builtin
  \<^verbatim>\<open>str\<close> on values that are not strings. The base scorer's \<^verbatim>\<open>_gen_pdbbind_desc\<close>,
  \<^verbatim>\<open>_load_pdbbind_desc\<close> and \<^verbatim>\<open>save\<close> receive the instance; what each of them does to the
  six fields is not fixed by anything in this file, and is taken from outside as well
  (\<open>gen_desc_fields\<close>, \<open>load_desc_fields\<close>, \<open>save_fields\<close>: the fields after the call, from the
  fields before it).
\<close>

record ext =
  module_dir :: string
  writable :: "string \<Rightarrow> bool"
  scorer_class_attr :: "string \<rightharpoonup> pyval"
  compute_descs :: "descriptors \<Rightarrow> string \<Rightarrow> int list \<Rightarrow> py_error + pyval"
  split_sets :: "pyval \<Rightarrow> string list \<Rightarrow> int \<Rightarrow> py_error + dataset"
  fit :: "model \<Rightarrow> matrix \<Rightarrow> pyval \<Rightarrow> py_error + (string \<rightharpoonup> pyval)"
  predict :: "model \<Rightarrow> matrix \<Rightarrow> py_error + pyval"
  metrics :: "pyval \<Rightarrow> pyval \<Rightarrow> py_error + string"
  py_str :: "pyval \<Rightarrow> string"
  gen_desc_fields :: "fields \<Rightarrow> fields"
  load_desc_fields :: "fields \<Rightarrow> fields"
  save_fields :: "fields \<Rightarrow> fields"

section \<open>Running a method: result, state and events\<close>

text \<open>
  A method runs on a state (the instance and the file system) and yields a result or an
  exception, the state it leaves (an exception does not undo what was done before it)
  and the events it caused.
\<close>

record ('a, 's) outcome =
  result :: "py_error + 'a"
  state :: 's
  events :: "event list"

type_synonym ('a, 's) prog = "'s \<Rightarrow> ('a, 's) outcome"

definition ret :: "'a \<Rightarrow> ('a, 's) prog" where
  "ret v = (\<lambda>st. \<lparr>result = Inr v, state = st, events = []\<rparr>)"

definition raise :: "py_error \<Rightarrow> ('a, 's) prog" where
  "raise e = (\<lambda>st. \<lparr>result = Inl e, state = st, events = []\<rparr>)"

definition emit :: "event \<Rightarrow> (unit, 's) prog" where
  "emit ev = (\<lambda>st. \<lparr>result = Inr (), state = st, events = [ev]\<rparr>)"

definition lift :: "py_error + 'a \<Rightarrow> ('a, 's) prog" where
  "lift r = (\<lambda>st. \<lparr>result = r, state = st, events = []\<rparr>)"

definition bind :: "('a, 's) prog \<Rightarrow> ('a \<Rightarrow> ('b, 's) prog) \<Rightarrow> ('b, 's) prog" where
  "bind m k =
     (\<lambda>st. let r = m st in
        (case result r of
           Inl e \<Rightarrow> \<lparr>result = Inl e, state = state r, events = events r\<rparr>
         | Inr v \<Rightarrow>
             (let r' = k v (state r) in
                \<lparr>result = result r', state = state r', events = events r @ events r'\<rparr>)))"

definition seq :: "(unit, 's) prog \<Rightarrow> ('b, 's) prog \<Rightarrow> ('b, 's) prog" where
  "seq m k = bind m (\<lambda>u. k)"

type_synonym 'a action = "('a, adapter \<times> files) prog"

definition get_self :: "adapter action" where
  "get_self = (\<lambda>(s, f). \<lparr>result = Inr s, state = (s, f), events = []\<rparr>)"

text \<open>\<^verbatim>\<open>isfile(p)\<close> on a file system.\<close>

definition isfile :: "files \<Rightarrow> string \<Rightarrow> bool" where
  "isfile f p = (f p \<noteq> None)"

definition run_on :: "adapter \<Rightarrow> 'a action \<Rightarrow> ('a, files) prog" where
  "run_on sf m =
     (\<lambda>f. let r = m (sf, f) in
        \<lparr>result = result r, state = snd (state r), events = events r\<rparr>)"

section \<open>The constructor\<close>

definition unsupported_version :: "string \<Rightarrow> string" where
  "unsupported_version v =
     ''The version '' @ [CHR 0x22] @ v @ [CHR 0x22] @ '' is not supported by PLECscore''"

text \<open>The \<^verbatim>\<open>if version == ... elif ... else raise ValueError\<close> chain of \<^verbatim>\<open>__init__\<close>.\<close>

definition make_model :: "string \<Rightarrow> (model, 's) prog" where
  "make_model v =
     (if v = ''linear'' then
        ret \<lparr>cls = SGDRegressor, args = [],
             kwargs = [(''fit_intercept'', PyBool False),
                       (''loss'', PyStr ''huber''),
                       (''penalty'', PyStr ''elasticnet''),
                       (''random_state'', PyInt 0),
                       (''verbose'', PyInt 0),
                       (''n_iter'', PyInt 100),
                       (''alpha'', PyFloat (Decimal 1 (- 4))),
                       (''epsilon'', PyFloat (Decimal 1 (- 1)))],
             attrs = Map.empty\<rparr>
      else if v = ''nn'' then
        ret \<lparr>cls = MLPRegressor, args = [PyTuple [PyInt 200, PyInt 200, PyInt 200]],
             kwargs = [(''batch_size'', PyInt 10),
                       (''random_state'', PyInt 0),
                       (''verbose'', PyInt 0),
                       (''solver'', PyStr ''lbfgs'')],
             attrs = Map.empty\<rparr>
      else if v = ''rf'' then
        ret \<lparr>cls = RandomForestRegressor, args = [],
             kwargs = [(''n_estimators'', PyInt 100),
                       (''n_jobs'', PyInt (- 1)),
                       (''verbose'', PyInt 0),
                       (''oob_score'', PyBool True),
                       (''random_state'', PyInt 0)],
             attrs = Map.empty\<rparr>
      else raise (ValueError (unsupported_version v)))"

text \<open>
  \<^verbatim>\<open>__init__(self, protein, n_jobs, version, depth_protein, depth_ligand, size)\<close>: the fields,
  the bound fingerprint function, the descriptor generator, the model of the variant, and
  the base scorer's constructor, which stores model, generator and title. An exception
  leaves no instance.
\<close>

definition PLECscore_init ::
  "protein option \<Rightarrow> int \<Rightarrow> string \<Rightarrow> int \<Rightarrow> int \<Rightarrow> int \<Rightarrow> (adapter, 's) prog" where
  "PLECscore_init p nj v dp dl sz =
     (let plec = \<lparr>pf_depth_ligand = dl, pf_depth_protein = dp, pf_size = sz,
                  pf_count_bits = True, pf_sparse = True, pf_ignore_hoh = True\<rparr>;
          descs = \<lparr>ud_func = plec, ud_protein = p, ud_shape = sz, ud_sparse = True\<rparr>
      in seq (emit (Built_plec_func plec))
        (seq (emit (Built_descriptors descs))
        (bind (make_model v) (\<lambda>m.
         seq (emit (Built_model m))
        (ret \<lparr>protein = p, n_jobs = nj, version = v, depth_protein = dp,
              depth_ligand = dl, size_bits = sz, model = m,
              descriptor_generator = descs,
              score_title = ''PLEC'' @ v @ ''_p'' @ str_int dp @ ''_l'' @ str_int dl,
              data = None\<rparr>)))))"

section \<open>File names\<close>

definition default_home :: "ext \<Rightarrow> string" where
  "default_home x = path_join (module_dir x) ''PLECscore''"

definition desc_name :: "adapter \<Rightarrow> string" where
  "desc_name s =
     ''plecscore_descs_p'' @ str_int (depth_protein s) @ ''_l'' @ str_int (depth_ligand s)
       @ ''_s'' @ str_int (size_bits s) @ ''.csv''"

definition json_name :: "adapter \<Rightarrow> int \<Rightarrow> string" where
  "json_name s pdbbind_version =
     ''plecscore_'' @ version s @ ''_p'' @ str_int (depth_protein s) @ ''_l''
       @ str_int (depth_ligand s) @ ''_s'' @ str_int (size_bits s) @ ''_pdbbind''
       @ str_int pdbbind_version @ ''.json''"

definition pickle_name :: "string \<Rightarrow> string \<Rightarrow> string \<Rightarrow> string \<Rightarrow> string \<Rightarrow> string" where
  "pickle_name v dp dl pv sz =
     ''PLEC'' @ v @ ''_p'' @ dp @ ''_l'' @ dl @ ''_pdbbind'' @ pv @ ''_s'' @ sz @ ''.pickle''"

section \<open>The base scorer's methods\<close>

text \<open>
  Modelled from the spec: the base scorer's \<^verbatim>\<open>_gen_pdbbind_desc\<close>, which is not in this
  file. It computes the descriptors of the benchmark with the instance's descriptor
  generator and writes them as a CSV file at \<open>desc_path\<close>. What it does to the six fields
  of the instance is \<open>gen_desc_fields\<close>.
\<close>

definition scorer_gen_pdbbind_desc ::
  "ext \<Rightarrow> string \<Rightarrow> int list \<Rightarrow> string \<Rightarrow> bool \<Rightarrow> bool \<Rightarrow> bool \<Rightarrow> unit action" where
  "scorer_gen_pdbbind_desc x pdbbind_dir pdbbind_versions desc_path general proteins sparse =
     seq (emit (Called_gen_pdbbind_desc desc_path pdbbind_versions pdbbind_dir general proteins sparse))
       (\<lambda>(s0, f).
          (let s = with_fields (gen_desc_fields x (config s0)) s0 in
             (case compute_descs x (descriptor_generator s) pdbbind_dir pdbbind_versions of
                Inl e \<Rightarrow> raise e (s, f)
              | Inr csv \<Rightarrow>
                  (if writable x desc_path then ret () (s, f(desc_path \<mapsto> Csv_file csv))
                   else raise (IOError desc_path) (s, f)))))"

text \<open>
  Modelled from the spec: the base scorer's \<^verbatim>\<open>_load_pdbbind_desc\<close>, which is not in this
  file. It reads the descriptor CSV and stores the training and test matrices and targets
  on the instance; a missing file is a file-not-found error. What it does to the six
  fields of the instance is \<open>load_desc_fields\<close>.
\<close>

definition scorer_load_pdbbind_desc ::
  "ext \<Rightarrow> string \<Rightarrow> string list \<Rightarrow> int \<Rightarrow> unit action" where
  "scorer_load_pdbbind_desc x desc_path train_set pdbbind_version =
     seq (emit (Called_load_pdbbind_desc desc_path train_set pdbbind_version))
       (\<lambda>(s0, f).
          (let s = with_fields (load_desc_fields x (config s0)) s0 in
             (case f desc_path of
                None \<Rightarrow> raise (IOError desc_path) (s, f)
              | Some (Csv_file csv) \<Rightarrow>
                  (case split_sets x csv train_set pdbbind_version of
                     Inl e \<Rightarrow> raise e (s, f)
                   | Inr d \<Rightarrow> ret () (s\<lparr>data := Some d\<rparr>, f))
              | Some other \<Rightarrow> raise (ValueError desc_path) (s, f))))"

text \<open>
  Modelled from the spec: the base scorer's \<^verbatim>\<open>save\<close>, which is not in this file. It
  persists the instance as an opaque artifact at the path and returns the path. What it
  does to the six fields of the instance, before it writes, is \<open>save_fields\<close>.
\<close>

definition scorer_save :: "ext \<Rightarrow> string \<Rightarrow> string action" where
  "scorer_save x filename =
     seq (emit (Called_save filename))
       (\<lambda>(s0, f).
          (let s = with_fields (save_fields x (config s0)) s0 in
             (if writable x filename then ret filename (s, f(filename \<mapsto> Pickle_file s))
              else raise (IOError filename) (s, f))))"

text \<open>
  Modelled from the spec: the base scorer's class-level \<^verbatim>\<open>load\<close>, which is not in this
  file. It deserialises the artifact at the path.
\<close>

definition scorer_load :: "string option \<Rightarrow> (adapter, files) prog" where
  "scorer_load filename =
     (\<lambda>f. (case filename of
              None \<Rightarrow> raise (TypeError ''expected a file name, not NoneType'') f
            | Some p \<Rightarrow>
                (case f p of
                   None \<Rightarrow> raise (IOError p) f
                 | Some (Pickle_file a) \<Rightarrow> ret a f
                 | Some other \<Rightarrow> raise (ValueError p) f)))"

section \<open>The model object\<close>

text \<open>\<^verbatim>\<open>getattr(self.model, name)\<close> and \<^verbatim>\<open>setattr(self.model, name, v)\<close>.\<close>

definition getattr_model :: "string \<Rightarrow> pyval action" where
  "getattr_model name =
     (\<lambda>(s, f).
        (case attrs (model s) name of
           Some v \<Rightarrow> ret v (s, f)
         | None \<Rightarrow>
             (case map_of (kwargs (model s)) name of
                Some v \<Rightarrow> ret v (s, f)
              | None \<Rightarrow> raise (AttributeError name) (s, f))))"

definition setattr_model :: "string \<Rightarrow> pyval \<Rightarrow> unit action" where
  "setattr_model name v =
     (\<lambda>(s, f). ret () (s\<lparr>model := (model s)\<lparr>attrs := (attrs (model s))(name \<mapsto> v)\<rparr>\<rparr>, f))"

text \<open>\<^verbatim>\<open>self.model.fit(X, y)\<close> sets the fitted attributes on the model object.\<close>

definition model_fit :: "ext \<Rightarrow> matrix \<Rightarrow> pyval \<Rightarrow> unit action" where
  "model_fit x X y =
     seq (emit (Called_fit X))
       (\<lambda>(s, f).
          (case fit x (model s) X y of
             Inl e \<Rightarrow> raise e (s, f)
           | Inr fitted \<Rightarrow>
               ret () (s\<lparr>model := (model s)\<lparr>attrs := attrs (model s) ++ fitted\<rparr>\<rparr>, f)))"

definition model_predict :: "ext \<Rightarrow> matrix \<Rightarrow> pyval action" where
  "model_predict x X =
     seq (emit (Called_predict X)) (\<lambda>(s, f). lift (predict x (model s) X) (s, f))"

text \<open>\<^verbatim>\<open>X.toarray()\<close>: a sparse matrix has the method, a dense array has not.\<close>

definition toarray :: "matrix \<Rightarrow> py_error + matrix" where
  "toarray X = (case X of Csr v \<Rightarrow> Inr (Dense v) | Dense v \<Rightarrow> Inl (AttributeError ''toarray''))"

section \<open>The method \<^verbatim>\<open>gen_training_data\<close>\<close>

text \<open>
  \<^verbatim>\<open>gen_training_data(self, pdbbind_dir, pdbbind_versions, home_dir)\<close>: the default directory
  is taken only for \<^verbatim>\<open>home_dir is None\<close>.
\<close>

definition gen_training_data :: "ext \<Rightarrow> string \<Rightarrow> int list \<Rightarrow> string option \<Rightarrow> unit action" where
  "gen_training_data x pdbbind_dir pdbbind_versions home_dir =
     bind get_self (\<lambda>s.
       (let home = (case home_dir of None \<Rightarrow> default_home x | Some h \<Rightarrow> h);
            filename = path_join home (desc_name s)
        in scorer_gen_pdbbind_desc x pdbbind_dir pdbbind_versions filename True True True))"

section \<open>The method \<^verbatim>\<open>train\<close>\<close>

text \<open>\<^verbatim>\<open>if not home_dir: home_dir = path_join(dirname(__file__), 'PLECscore')\<close>\<close>

definition train_home :: "ext \<Rightarrow> string option \<Rightarrow> string" where
  "train_home x home_dir =
     (case home_dir of
        None \<Rightarrow> default_home x
      | Some h \<Rightarrow> (if h = [] then default_home x else h))"

definition train_json_path :: "ext \<Rightarrow> adapter \<Rightarrow> string option \<Rightarrow> int \<Rightarrow> string" where
  "train_json_path x s home_dir pdbbind_version =
     path_join (train_home x home_dir) (json_name s pdbbind_version)"

definition train_desc_path :: "ext \<Rightarrow> adapter \<Rightarrow> string option \<Rightarrow> string" where
  "train_desc_path x s home_dir = path_join (train_home x home_dir) (desc_name s)"

text \<open>\<^verbatim>\<open>with open(json_path) as json_f: json_data = json.load(json_f)\<close>\<close>

definition read_json :: "string \<Rightarrow> ((string \<times> pyval) list) action" where
  "read_json p =
     seq (emit (Read_json p))
       (\<lambda>(s, f).
          (case f p of
             None \<Rightarrow> raise (IOError p) (s, f)
           | Some (Json_file d) \<Rightarrow> ret d (s, f)
           | Some other \<Rightarrow> raise (ValueError ''No JSON object could be decoded'') (s, f)))"

text \<open>
  The body of the loop over \<^verbatim>\<open>json_data.items()\<close> before the \<^verbatim>\<open>setattr\<close>: a list of lists
  becomes a list of arrays, any other list an array; \<^verbatim>\<open>v[0]\<close> of an empty list raises.
\<close>

definition convert_loaded :: "pyval \<Rightarrow> py_error + pyval" where
  "convert_loaded v =
     (case isinstance v Type_list of
        Inl e \<Rightarrow> Inl e
      | Inr b \<Rightarrow>
          (if b then
             (case item0 v of
                Inl e \<Rightarrow> Inl e
              | Inr v0 \<Rightarrow>
                  (case isinstance v0 Type_list of
                     Inl e \<Rightarrow> Inl e
                   | Inr b0 \<Rightarrow>
                       (if b0 then Inr (PyList (map NdArray (elements v)))
                        else Inr (NdArray v))))
           else Inr v))"

fun set_loaded_attrs :: "(string \<times> pyval) list \<Rightarrow> unit action" where
  "set_loaded_attrs [] = ret ()"
| "set_loaded_attrs ((k, v) # kvs) =
     bind (lift (convert_loaded v)) (\<lambda>v'.
       seq (setattr_model k v') (set_loaded_attrs kvs))"

definition loading_message :: "adapter \<Rightarrow> int \<Rightarrow> string" where
  "loading_message s pdbbind_version =
     ''Loading pretrained PLECscore '' @ version s @ '' with depths P''
       @ str_int (depth_protein s) @ '' L'' @ str_int (depth_ligand s)
       @ '' on PDBBind v'' @ str_int pdbbind_version"

definition training_message :: "adapter \<Rightarrow> int \<Rightarrow> string" where
  "training_message s pdbbind_version =
     ''Training PLECscore '' @ version s @ '' with depths P''
       @ str_int (depth_protein s) @ '' L'' @ str_int (depth_ligand s)
       @ '' on PDBBind v'' @ str_int pdbbind_version"

text \<open>
  The branch taken when the parameter document is used. It has no \<^verbatim>\<open>return\<close>: control
  reaches the end of the function, so the call yields \<^verbatim>\<open>None\<close>.
\<close>

definition train_fast :: "adapter \<Rightarrow> string \<Rightarrow> int \<Rightarrow> (string option) action" where
  "train_fast s json_path pdbbind_version =
     seq (emit (Printed (loading_message s pdbbind_version)))
       (bind (read_json json_path) (\<lambda>json_data.
        seq (set_loaded_attrs json_data)
       (ret None)))"

text \<open>
  \<^verbatim>\<open>self.model.fit(...)\<close>: the random forest gets the dense matrix, the others the matrix
  as loaded. The matrices are the fields the loader has set on the instance.
\<close>

definition fit_step :: "ext \<Rightarrow> unit action" where
  "fit_step x =
     bind get_self (\<lambda>s.
       (case data s of
          None \<Rightarrow> raise (AttributeError ''train_descs'')
        | Some d \<Rightarrow>
            (if version s = ''rf'' then
               bind (lift (toarray (train_descs d))) (\<lambda>X. model_fit x X (train_target d))
             else model_fit x (train_descs d) (train_target d))))"

text \<open>The list \<^verbatim>\<open>sets\<close>: name, prediction and target of each evaluated set.\<close>

definition prediction_sets :: "ext \<Rightarrow> ((string \<times> pyval \<times> pyval) list) action" where
  "prediction_sets x =
     bind get_self (\<lambda>s.
       (case data s of
          None \<Rightarrow> raise (AttributeError ''test_descs'')
        | Some d \<Rightarrow>
            bind (model_predict x (test_descs d)) (\<lambda>p_test.
            bind (model_predict x (train_descs d)) (\<lambda>p_train.
              (let sets = [(''Test'', p_test, test_target d),
                           (''Train'', p_train, train_target d)]
               in if version s = ''rf'' then
                    bind (getattr_model ''oob_prediction_'') (\<lambda>oob.
                      ret (sets @ [(''OOB'', oob, train_target d)]))
                  else ret sets)))))"

text \<open>The loop printing the three metrics of each set to the error stream.\<close>

fun report :: "ext \<Rightarrow> (string \<times> pyval \<times> pyval) list \<Rightarrow> unit action" where
  "report x [] = ret ()"
| "report x ((name, pred, target) # sets) =
     seq (emit (Called_metrics name))
       (bind (lift (metrics x target pred)) (\<lambda>line.
        seq (emit (Printed (name @ '' set:'' @ [CHR 0x09] @ line)))
       (report x sets)))"

text \<open>
  The branch that trains. It ends with \<^verbatim>\<open>return self.save(...)\<close>: the default file name
  when \<^verbatim>\<open>sf_pickle is None\<close>, else the given path. The message and the default file name
  are formatted from the fields of the instance as they are when the statement runs.
\<close>

definition train_slow ::
  "ext \<Rightarrow> string \<Rightarrow> string option \<Rightarrow> int \<Rightarrow> (string option) action" where
  "train_slow x desc_path sf_pickle pdbbind_version =
     seq (scorer_load_pdbbind_desc x desc_path [''general'', ''refined''] pdbbind_version)
    (seq (bind get_self (\<lambda>s. emit (Printed (training_message s pdbbind_version))))
    (seq (fit_step x)
    (bind (prediction_sets x) (\<lambda>sets.
     seq (report x sets)
       (case sf_pickle of
          None \<Rightarrow>
            bind get_self (\<lambda>s.
            bind (scorer_save x
                    (pickle_name (version s) (str_int (depth_protein s))
                       (str_int (depth_ligand s)) (str_int pdbbind_version)
                       (str_int (size_bits s))))
              (\<lambda>p. ret (Some p)))
        | Some given \<Rightarrow> bind (scorer_save x given) (\<lambda>p. ret (Some p)))))))"

text \<open>The condition of the \<^verbatim>\<open>if\<close> in \<^verbatim>\<open>train\<close>.\<close>

definition uses_json :: "ext \<Rightarrow> adapter \<Rightarrow> files \<Rightarrow> string option \<Rightarrow> int \<Rightarrow> bool \<Rightarrow> bool" where
  "uses_json x s f home_dir pdbbind_version ignore_json =
     (version s \<in> set [''linear'']
      \<and> isfile f (train_json_path x s home_dir pdbbind_version)
      \<and> \<not> ignore_json)"

text \<open>\<^verbatim>\<open>train(self, home_dir, sf_pickle, pdbbind_version, ignore_json)\<close>\<close>

definition train ::
  "ext \<Rightarrow> string option \<Rightarrow> string option \<Rightarrow> int \<Rightarrow> bool \<Rightarrow> (string option) action" where
  "train x home_dir sf_pickle pdbbind_version ignore_json =
     (\<lambda>(s, f).
        (if uses_json x s f home_dir pdbbind_version ignore_json
         then train_fast s (train_json_path x s home_dir pdbbind_version) pdbbind_version (s, f)
         else train_slow x (train_desc_path x s home_dir) sf_pickle pdbbind_version (s, f)))"

section \<open>The method \<^verbatim>\<open>gen_json\<close>\<close>

text \<open>
  The \<^verbatim>\<open>if isinstance(self.model, SGDRegressor) ... elif isinstance(self.model, MLPRegressor)\<close>
  chain has no \<^verbatim>\<open>else\<close>: for any other model the name \<^verbatim>\<open>attributes\<close> stays unbound.
\<close>

definition attributes_for :: "model \<Rightarrow> string list option" where
  "attributes_for m =
     (if cls m = SGDRegressor then Some [''coef_'', ''intercept_'']
      else if cls m = MLPRegressor then
        Some [''loss_'', ''coefs_'', ''intercepts_'', ''n_iter_'', ''n_layers_'',
              ''n_outputs_'', ''out_activation_'']
      else None)"

text \<open>
  The conversion of one attribute for JSON. The source tests \<^verbatim>\<open>isinstance(attr, np.array)\<close>.
\<close>

definition convert_attr :: "pyval \<Rightarrow> py_error + pyval" where
  "convert_attr attr =
     (case isinstance attr np_array of
        Inl e \<Rightarrow> Inl e
      | Inr b \<Rightarrow>
          (if b then tolist attr
           else
             (case isinstance attr (Types [Type_list, Type_tuple]) of
                Inl e \<Rightarrow> Inl e
              | Inr b1 \<Rightarrow>
                  (if b1 then
                     (case item0 attr of
                        Inl e \<Rightarrow> Inl e
                      | Inr a0 \<Rightarrow>
                          (case isinstance a0 np_array of
                             Inl e \<Rightarrow> Inl e
                           | Inr b2 \<Rightarrow>
                               (if b2 then
                                  (case tolist_each (elements attr) of
                                     Inl e \<Rightarrow> Inl e
                                   | Inr ys \<Rightarrow> Inr (PyList ys))
                                else Inr attr)))
                   else Inr attr))))"

text \<open>The loop \<^verbatim>\<open>for attr_name in attributes\<close>, filling the dictionary \<^verbatim>\<open>out\<close>.\<close>

fun export_attrs :: "string list \<Rightarrow> (string \<times> pyval) list \<Rightarrow> ((string \<times> pyval) list) action" where
  "export_attrs [] out = ret out"
| "export_attrs (attr_name # rest) out =
     bind (getattr_model attr_name) (\<lambda>attr.
     bind (lift (convert_attr attr)) (\<lambda>v.
       export_attrs rest (AList.update attr_name v out)))"

text \<open>
  \<^verbatim>\<open>with open(json_path, 'w') as json_f: json.dump(out, json_f, indent=2)\<close>: the file is
  opened first; a value that cannot be serialised leaves it incomplete.
\<close>

definition write_json :: "ext \<Rightarrow> string \<Rightarrow> (string \<times> pyval) list \<Rightarrow> unit action" where
  "write_json x p out =
     seq (emit (Opened_for_writing p))
       (\<lambda>(s, f).
          (if \<not> writable x p then raise (IOError p) (s, f)
           else if list_all serializable (map snd out) then
             seq (emit (Wrote_json p)) (ret ())
               (s, f(p \<mapsto> Json_file (map (\<lambda>kv. (fst kv, json_form (snd kv))) out)))
           else raise (TypeError ''Object is not JSON serializable'') (s, f(p \<mapsto> Partial_file))))"

text \<open>
  \<^verbatim>\<open>gen_json(self, home_dir, pdbbind_version)\<close>. The inner call is
  \<^verbatim>\<open>self.train(home_dir=home_dir)\<close>, with the defaults of \<^verbatim>\<open>train\<close> for the rest; the path of
  the document is joined from \<^verbatim>\<open>home_dir\<close> as it was passed.
\<close>

definition gen_json :: "ext \<Rightarrow> string option \<Rightarrow> int \<Rightarrow> string action" where
  "gen_json x home_dir pdbbind_version =
     bind (train x home_dir None 2016 False) (\<lambda>trained.
     bind get_self (\<lambda>s.
       (case attributes_for (model s) of
          None \<Rightarrow> raise (UnboundLocalError ''attributes'')
        | Some attributes \<Rightarrow>
            bind (export_attrs attributes []) (\<lambda>out.
            bind (lift (path_join_opt home_dir (json_name s pdbbind_version))) (\<lambda>json_path.
             seq (write_json x json_path out)
            (ret json_path))))))"

section \<open>The class method \<^verbatim>\<open>load\<close>\<close>

text \<open>
  \<^verbatim>\<open>load\<close> is a class method: its \<^verbatim>\<open>self\<close> is the class. The class body of \<^verbatim>\<open>PLECscore\<close> binds
  its five methods only, so \<^verbatim>\<open>self.version\<close>, \<^verbatim>\<open>self.depth_protein\<close>, \<^verbatim>\<open>self.depth_ligand\<close> and
  \<^verbatim>\<open>self.size\<close> are looked up among the attributes of the base class.
\<close>

definition class_attr :: "ext \<Rightarrow> string \<Rightarrow> py_error + pyval" where
  "class_attr x name =
     (case scorer_class_attr x name of
        None \<Rightarrow> Inl (AttributeError name)
      | Some v \<Rightarrow> Inr v)"

text \<open>\<^verbatim>\<open>'%s' % v\<close> and \<^verbatim>\<open>'%i' % v\<close> for a value found there.\<close>

fun truncated :: "pyfloat \<Rightarrow> int" where
  "truncated (Decimal m e) =
     (if 0 \<le> e then m * 10 ^ nat e else sgn m * (\<bar>m\<bar> div 10 ^ nat (- e)))"

definition format_s :: "ext \<Rightarrow> pyval \<Rightarrow> string" where
  "format_s x v = (case v of PyStr t \<Rightarrow> t | _ \<Rightarrow> py_str x v)"

definition format_i :: "pyval \<Rightarrow> py_error + string" where
  "format_i v =
     (case v of
        PyInt i \<Rightarrow> Inr (str_int i)
      | PyBool b \<Rightarrow> Inr (if b then ''1'' else ''0'')
      | PyFloat d \<Rightarrow> Inr (str_int (truncated d))
      | _ \<Rightarrow> Inl (TypeError ''%i format: a number is required''))"

text \<open>
  The file name built at the start of the branch \<^verbatim>\<open>filename is None\<close>: the four attributes
  are read in the order of the tuple, then formatted.
\<close>

definition class_fname :: "ext \<Rightarrow> int \<Rightarrow> py_error + string" where
  "class_fname x pdbbind_version =
     (case class_attr x ''version'' of Inl e \<Rightarrow> Inl e | Inr v \<Rightarrow>
     (case class_attr x ''depth_protein'' of Inl e \<Rightarrow> Inl e | Inr dp \<Rightarrow>
     (case class_attr x ''depth_ligand'' of Inl e \<Rightarrow> Inl e | Inr dl \<Rightarrow>
     (case class_attr x ''size'' of Inl e \<Rightarrow> Inl e | Inr sz \<Rightarrow>
     (case format_i dp of Inl e \<Rightarrow> Inl e | Inr dp' \<Rightarrow>
     (case format_i dl of Inl e \<Rightarrow> Inl e | Inr dl' \<Rightarrow>
     (case format_i sz of Inl e \<Rightarrow> Inl e | Inr sz' \<Rightarrow>
        Inr (pickle_name (format_s x v) dp' dl' (str_int pdbbind_version) sz'))))))))"

text \<open>The \<^verbatim>\<open>for f in [...]: if isfile(f): ... break\<close> loop.\<close>

definition probe :: "string list \<Rightarrow> (string option, files) prog" where
  "probe candidates = (\<lambda>f. ret (find (isfile f) candidates) f)"

text \<open>
  \<^verbatim>\<open>load(cls, filename, version, pdbbind_version)\<close>. In the \<^verbatim>\<open>else\<close> of the loop \<^verbatim>\<open>filename\<close> is
  still \<^verbatim>\<open>None\<close>, so the new instance is trained with \<^verbatim>\<open>sf_pickle=None\<close>.
\<close>

definition load :: "ext \<Rightarrow> string option \<Rightarrow> string \<Rightarrow> int \<Rightarrow> (adapter, files) prog" where
  "load x filename v pdbbind_version =
     bind
       (case filename of
          Some given \<Rightarrow> ret (Some given)
        | None \<Rightarrow>
            bind (lift (class_fname x pdbbind_version)) (\<lambda>fname.
            bind (probe [fname, path_join (module_dir x) fname]) (\<lambda>found.
              (case found of
                 Some p \<Rightarrow> ret (Some p)
               | None \<Rightarrow>
                   seq (emit (Printed ''No pickle, training new scoring function.''))
                  (bind (PLECscore_init None (- 1) v 5 1 65536) (\<lambda>sf.
                   run_on sf (train x None None pdbbind_version False)))))))
       (\<lambda>resolved. scorer_load resolved)"

section \<open>Sequences of operations on one instance\<close>

datatype operation =
    Gen_training_data string "int list" "string option"
  | Train "string option" "string option" int bool
  | Gen_json "string option" int

text \<open>
  The state after one operation; an exception leaves the state reached when it was raised,
  and the caller may go on.
\<close>

fun run_op :: "ext \<Rightarrow> operation \<Rightarrow> adapter \<times> files \<Rightarrow> adapter \<times> files" where
  "run_op x (Gen_training_data d vs h) st = state (gen_training_data x d vs h st)"
| "run_op x (Train h p v i) st = state (train x h p v i st)"
| "run_op x (Gen_json h v) st = state (gen_json x h v st)"

fun run_ops :: "ext \<Rightarrow> operation list \<Rightarrow> adapter \<times> files \<Rightarrow> adapter \<times> files" where
  "run_ops x [] st = st"
| "run_ops x (opn # ops) st = run_ops x ops (run_op x opn st)"

text \<open>
  Everything of an instance but its six fields, the attributes set on the model object
  and the loaded data: the class and constructor arguments of the model, the descriptor
  generator and the title.
\<close>

definition fixed_part ::
  "adapter \<Rightarrow> estimator_class \<times> pyval list \<times> (string \<times> pyval) list \<times> descriptors \<times> string" where
  "fixed_part s =
     (cls (model s), args (model s), kwargs (model s), descriptor_generator s, score_title s)"

text \<open>
  An observation of the instance that the attributes of the model object and the loaded
  data do not enter, and one that the base scorer's three methods do not change.
\<close>

definition insensitive :: "(adapter \<Rightarrow> 'b) \<Rightarrow> bool" where
  "insensitive g =
     (\<forall>s a d. g (s\<lparr>model := (model s)\<lparr>attrs := a\<rparr>\<rparr>) = g s \<and> g (s\<lparr>data := d\<rparr>) = g s)"

definition base_keeps :: "ext \<Rightarrow> (adapter \<Rightarrow> 'b) \<Rightarrow> bool" where
  "base_keeps x g =
     (\<forall>s. g (with_fields (gen_desc_fields x (config s)) s) = g s
        \<and> g (with_fields (load_desc_fields x (config s)) s) = g s
        \<and> g (with_fields (save_fields x (config s)) s) = g s)"

text \<open>The base scorer's three methods leave the six fields as they find them.\<close>

definition base_keeps_fields :: "ext \<Rightarrow> bool" where
  "base_keeps_fields x =
     (\<forall>c. gen_desc_fields x c = c \<and> load_desc_fields x c = c \<and> save_fields x c = c)"

text \<open>A method keeps an observation \<open>g\<close> of the instance when no run of it changes \<open>g\<close>.\<close>

definition keeps :: "(adapter \<Rightarrow> 'b) \<Rightarrow> 'a action \<Rightarrow> bool" where
  "keeps g m = (\<forall>st. g (fst (state (m st))) = g (fst st))"

text \<open>A program never causes an event of the kind \<open>P\<close>.\<close>

definition never :: "(event \<Rightarrow> bool) \<Rightarrow> ('a, 's) prog \<Rightarrow> bool" where
  "never P m = (\<forall>st. \<not> list_ex P (events (m st)))"

section \<open>A concrete environment\<close>

text \<open>
  An environment in which every collaborator succeeds, the instances the constructor
  builds with its default arguments (and one built on a protein), two small file systems
  below a directory \<open>h\<close>, one holding the descriptor CSV, one holding the parameter
  document of the linear model as well, and a file system holding the descriptor CSV in
  the directory beside the module.
\<close>

definition example_ext :: ext where
  "example_ext =
     \<lparr>module_dir = ''/opt/oddt/scoring/functions'',
      writable = (\<lambda>p. True),
      scorer_class_attr = Map.empty,
      compute_descs = (\<lambda>d dir vs. Inr (PyList [])),
      split_sets = (\<lambda>csv ts v.
         Inr \<lparr>train_descs = Csr (PyList [PyList [PyInt 1, PyInt 0]]),
              train_target = NdArray (PyList [PyFloat (Decimal 65 (- 1))]),
              test_descs = Csr (PyList [PyList [PyInt 0, PyInt 1]]),
              test_target = NdArray (PyList [PyFloat (Decimal 42 (- 1))])\<rparr>),
      fit = (\<lambda>m X y.
         Inr [''coef_'' \<mapsto> NdArray (PyList [PyFloat (Decimal 5 (- 1)), PyFloat (Decimal 25 (- 2))]),
              ''intercept_'' \<mapsto> NdArray (PyList [PyFloat (Decimal 0 0)]),
              ''oob_prediction_'' \<mapsto> NdArray (PyList [PyFloat (Decimal 6 0)])]),
      predict = (\<lambda>m X. Inr (NdArray (PyList [PyFloat (Decimal 6 0)]))),
      metrics = (\<lambda>t p. Inr ''R2_score: 0.0000''),
      py_str = (\<lambda>v. ''object''),
      gen_desc_fields = (\<lambda>c. c),
      load_desc_fields = (\<lambda>c. c),
      save_fields = (\<lambda>c. c)\<rparr>"

text \<open>
  The same environment with a base \<^verbatim>\<open>save\<close> that clears the protein reference of the
  instance before it writes the artifact.
\<close>

definition clearing_ext :: ext where
  "clearing_ext = example_ext\<lparr>save_fields := (\<lambda>c. (None, snd c))\<rparr>"

definition example_adapter :: "int \<Rightarrow> string \<Rightarrow> adapter" where
  "example_adapter nj v = projr (result (PLECscore_init None nj v 5 1 65536 ()))"

definition example_adapter_on :: "protein \<Rightarrow> adapter" where
  "example_adapter_on prot = projr (result (PLECscore_init (Some prot) (- 1) ''linear'' 5 1 65536 ()))"

definition example_csv :: files where
  "example_csv = [''h/plecscore_descs_p5_l1_s65536.csv'' \<mapsto> Csv_file (PyList [])]"

definition example_module_csv :: files where
  "example_module_csv =
     [''/opt/oddt/scoring/functions/PLECscore/plecscore_descs_p5_l1_s65536.csv''
        \<mapsto> Csv_file (PyList [])]"

definition example_json :: files where
  "example_json =
     example_csv(''h/plecscore_linear_p5_l1_s65536_pdbbind2016.json'' \<mapsto>
       Json_file [(''coef_'', PyList [PyFloat (Decimal 5 (- 1)), PyFloat (Decimal 25 (- 2))]),
                  (''intercept_'', PyList [PyFloat (Decimal 0 0)])])"

section \<open>Running programs\<close>

lemma result_ret [simp]: "result (ret v st) = Inr v"
  and state_ret [simp]: "state (ret v st) = st"
  and events_ret [simp]: "events (ret v st) = []"
  by (simp_all add: ret_def)

lemma result_raise [simp]: "result (raise e st) = Inl e"
  and state_raise [simp]: "state (raise e st) = st"
  and events_raise [simp]: "events (raise e st) = []"
  by (simp_all add: raise_def)

lemma result_emit [simp]: "result (emit ev st) = Inr ()"
  and state_emit [simp]: "state (emit ev st) = st"
  and events_emit [simp]: "events (emit ev st) = [ev]"
  by (simp_all add: emit_def)

lemma result_lift [simp]: "result (lift r st) = r"
  and state_lift [simp]: "state (lift r st) = st"
  and events_lift [simp]: "events (lift r st) = []"
  by (simp_all add: lift_def)

lemma result_bind:
  "result (bind m k st) =
     (case result (m st) of Inl e \<Rightarrow> Inl e | Inr v \<Rightarrow> result (k v (state (m st))))"
  by (simp add: bind_def Let_def split: sum.splits)

lemma state_bind:
  "state (bind m k st) =
     (case result (m st) of Inl e \<Rightarrow> state (m st) | Inr v \<Rightarrow> state (k v (state (m st))))"
  by (simp add: bind_def Let_def split: sum.splits)

lemma events_bind:
  "events (bind m k st) =
     events (m st) @ (case result (m st) of Inl e \<Rightarrow> [] | Inr v \<Rightarrow> events (k v (state (m st))))"
  by (simp add: bind_def Let_def split: sum.splits)

lemmas run_bind = result_bind state_bind events_bind

lemma result_seq:
  "result (seq m k st) = (case result (m st) of Inl e \<Rightarrow> Inl e | Inr v \<Rightarrow> result (k (state (m st))))"
  by (simp add: seq_def result_bind)

lemma state_seq:
  "state (seq m k st) = (case result (m st) of Inl e \<Rightarrow> state (m st) | Inr v \<Rightarrow> state (k (state (m st))))"
  by (simp add: seq_def state_bind)

lemma events_seq:
  "events (seq m k st) =
     events (m st) @ (case result (m st) of Inl e \<Rightarrow> [] | Inr v \<Rightarrow> events (k (state (m st))))"
  by (simp add: seq_def events_bind)

lemmas run_seq = result_seq state_seq events_seq

section \<open>The constructor: claims C4, C7 and C8\<close>

lemma str_int_values:
  "str_int 5 = ''5''" "str_int 1 = ''1''" "str_int 65536 = ''65536''" "str_int 2016 = ''2016''"
  by (simp_all add: str_int_def str_nat.simps digit_char_def)

text \<open>
  Claim C4, as amended. A variant tag outside \<open>linear\<close>, \<open>nn\<close>, \<open>rf\<close> makes the constructor
  fail with a \<^verbatim>\<open>ValueError\<close> whose message quotes the tag, and no model is constructed. The
  descriptor generator has been constructed by then: the check comes after it.
\<close>

theorem init_invalid_version:
  assumes "v \<notin> {''linear'', ''nn'', ''rf''}"
  shows "result (PLECscore_init p nj v dp dl sz st) =
           Inl (ValueError (''The version '' @ [CHR 0x22] @ v @ [CHR 0x22] @ '' is not supported by PLECscore''))
         \<and> \<not> list_ex is_built_model (events (PLECscore_init p nj v dp dl sz st))
         \<and> list_ex is_built_descriptors (events (PLECscore_init p nj v dp dl sz st))"
  using assms
  by (simp add: PLECscore_init_def Let_def make_model_def run_seq run_bind unsupported_version_def)

text \<open>The theorem at the tag \<open>xgb\<close>.\<close>

theorem init_invalid_version_witness:
  "''xgb'' \<notin> {''linear'', ''nn'', ''rf''} \<and>
   result (PLECscore_init None (- 1) ''xgb'' 5 1 65536 ()) =
     Inl (ValueError (''The version '' @ [CHR 0x22] @ ''xgb'' @ [CHR 0x22] @ '' is not supported by PLECscore''))"
  using init_invalid_version [of "''xgb''" None "- 1" 5 1 65536 "()"] by simp

text \<open>
  Claim C4 as stated says that no feature extractor is constructed either. With the tag
  \<open>xgb\<close> and the default arguments the constructor fails, and the events before the failure
  are the binding of the fingerprint function and the construction of the descriptor
  generator.
\<close>

theorem init_invalid_builds_descriptors:
  "result (PLECscore_init None (- 1) ''xgb'' 5 1 65536 ()) =
     Inl (ValueError (''The version '' @ [CHR 0x22] @ ''xgb'' @ [CHR 0x22] @ '' is not supported by PLECscore''))
   \<and> events (PLECscore_init None (- 1) ''xgb'' 5 1 65536 ()) =
     [Built_plec_func \<lparr>pf_depth_ligand = 1, pf_depth_protein = 5, pf_size = 65536,
                  pf_count_bits = True, pf_sparse = True, pf_ignore_hoh = True\<rparr>,
      Built_descriptors \<lparr>ud_func = \<lparr>pf_depth_ligand = 1, pf_depth_protein = 5, pf_size = 65536,
                  pf_count_bits = True, pf_sparse = True, pf_ignore_hoh = True\<rparr>, ud_protein = None, ud_shape = 65536, ud_sparse = True\<rparr>]"
  by (simp add: PLECscore_init_def Let_def make_model_def run_seq run_bind unsupported_version_def)



text \<open>
  Claim C8. For the linear variant the constructor builds an \<^verbatim>\<open>SGDRegressor\<close> (the online
  stochastic fit) with exactly these arguments: no intercept fitting, huber loss,
  elastic-net penalty, seed 0, 100 passes, \<open>alpha\<close> the decimal \<open>1e-4\<close> and \<open>epsilon\<close> the
  decimal \<open>1e-1\<close> (and \<^verbatim>\<open>verbose=0\<close>).
\<close>

theorem init_linear_hyperparameters:
  "\<exists>s. result (PLECscore_init p nj ''linear'' dp dl sz st) = Inr s
       \<and> cls (model s) = SGDRegressor
       \<and> args (model s) = []
       \<and> kwargs (model s) =
           [(''fit_intercept'', PyBool False), (''loss'', PyStr ''huber''),
            (''penalty'', PyStr ''elasticnet''), (''random_state'', PyInt 0),
            (''verbose'', PyInt 0), (''n_iter'', PyInt 100),
            (''alpha'', PyFloat (Decimal 1 (- 4))), (''epsilon'', PyFloat (Decimal 1 (- 1)))]
       \<and> decimal_value (Decimal 1 (- 4)) = 1 / 10000
       \<and> decimal_value (Decimal 1 (- 1)) = 1 / 10"
  by (simp add: PLECscore_init_def Let_def make_model_def run_seq run_bind)

section \<open>Events and states of the parts of train\<close>

lemma result_get_self [simp]: "result (get_self st) = Inr (fst st)"
  and state_get_self [simp]: "state (get_self st) = st"
  and events_get_self [simp]: "events (get_self st) = []"
  by (simp_all add: get_self_def split: prod.splits)

lemma events_read_json [simp]: "events (read_json p st) = [Read_json p]"
  by (simp add: read_json_def run_seq split: prod.splits option.splits file_content.splits)

lemma state_read_json [simp]: "state (read_json p st) = st"
  by (simp add: read_json_def run_seq split: prod.splits option.splits file_content.splits)

lemma events_setattr_model [simp]: "events (setattr_model k v st) = []"
  by (simp add: setattr_model_def split: prod.splits)

lemma result_setattr_model [simp]: "result (setattr_model k v st) = Inr ()"
  by (simp add: setattr_model_def split: prod.splits)

lemma events_set_loaded_attrs [simp]: "events (set_loaded_attrs kvs st) = []"
  by (induction kvs arbitrary: st rule: set_loaded_attrs.induct)
    (simp_all add: run_bind run_seq split: sum.splits)

lemma events_train_fast:
  "events (train_fast s p pv st) = [Printed (loading_message s pv), Read_json p]"
  by (simp add: train_fast_def run_seq run_bind split: sum.splits)

lemma result_train_fast: "result (train_fast s p pv st) \<noteq> Inr (Some q)"
  by (simp add: train_fast_def run_seq run_bind split: sum.splits)

lemma events_scorer_load_pdbbind_desc [simp]:
  "events (scorer_load_pdbbind_desc x p ts v st) = [Called_load_pdbbind_desc p ts v]"
  by (simp add: scorer_load_pdbbind_desc_def Let_def run_seq
      split: prod.splits option.splits file_content.splits sum.splits)

lemma events_train_slow:
  "\<exists>rest. events (train_slow x p sf pv st) =
     Called_load_pdbbind_desc p [''general'', ''refined''] pv # rest"
  by (simp add: train_slow_def events_seq)

section \<open>What the calls leave unchanged: claim C9\<close>

lemma keepsI: "(\<And>st. g (fst (state (m st))) = g (fst st)) \<Longrightarrow> keeps g m"
  by (simp add: keeps_def)

lemma keepsD: "keeps g m \<Longrightarrow> g (fst (state (m st))) = g (fst st)"
  unfolding keeps_def by blast

lemma keeps_basic:
  "keeps g (ret v)" "keeps g (raise e)" "keeps g (emit ev)" "keeps g (lift r)" "keeps g get_self"
  by (simp_all add: keeps_def)

lemma keeps_bind:
  assumes "keeps g m" and "\<And>v. keeps g (k v)"
  shows "keeps g (bind m k)"
proof (rule keepsI)
  fix st
  show "g (fst (state (bind m k st))) = g (fst st)"
  proof (cases "result (m st)")
    case (Inl e)
    then show ?thesis using assms(1) by (simp add: state_bind keepsD)
  next
    case (Inr v)
    have "g (fst (state (k v (state (m st))))) = g (fst (state (m st)))"
      using assms(2) by (rule keepsD)
    with Inr show ?thesis using assms(1) by (simp add: state_bind keepsD)
  qed
qed

lemma keeps_seq: "keeps g m \<Longrightarrow> keeps g k \<Longrightarrow> keeps g (seq m k)"
  by (simp add: seq_def keeps_bind)

lemma with_fields_config [simp]: "with_fields (config s) s = s"
  by (simp add: config_def)

lemma config_with_fields [simp]: "config (with_fields c s) = c"
  by (cases c) (simp add: config_def)

lemma fixed_part_with_fields [simp]: "fixed_part (with_fields c s) = fixed_part s"
  by (cases c) (simp add: fixed_part_def)

lemma insensitive_fixed_part: "insensitive fixed_part"
  by (simp add: insensitive_def fixed_part_def)

lemma insensitive_config: "insensitive config"
  by (simp add: insensitive_def config_def)

lemma base_keeps_fixed_part: "base_keeps x fixed_part"
  by (simp add: base_keeps_def)

lemma base_keeps_config: "base_keeps_fields x \<Longrightarrow> base_keeps x config"
  unfolding base_keeps_def base_keeps_fields_def by (metis with_fields_config)

lemma insensitiveD:
  assumes "insensitive g"
  shows "g (s\<lparr>model := (model s)\<lparr>attrs := a\<rparr>\<rparr>) = g s" and "g (s\<lparr>data := d\<rparr>) = g s"
  using assms unfolding insensitive_def by blast+

lemma base_keepsD:
  assumes "base_keeps x g"
  shows "g (with_fields (gen_desc_fields x (config s)) s) = g s"
    and "g (with_fields (load_desc_fields x (config s)) s) = g s"
    and "g (with_fields (save_fields x (config s)) s) = g s"
  using assms unfolding base_keeps_def by blast+

lemma keeps_model_ops:
  assumes "insensitive g"
  shows "keeps g (setattr_model k v)"
    and "keeps g (getattr_model k)"
    and "keeps g (model_fit x X y)"
    and "keeps g (model_predict x X)"
  using insensitiveD [OF assms]
  by (auto simp: keeps_def setattr_model_def getattr_model_def model_fit_def model_predict_def
      run_seq split: option.splits sum.splits)

lemma keeps_scorer_ops:
  assumes "insensitive g" and "base_keeps x g"
  shows "keeps g (scorer_gen_pdbbind_desc x d vs p b1 b2 b3)"
    and "keeps g (scorer_load_pdbbind_desc x p ts v)"
    and "keeps g (scorer_save x p)"
  using insensitiveD [OF assms(1)] base_keepsD [OF assms(2)]
  by (auto simp: keeps_def scorer_gen_pdbbind_desc_def scorer_load_pdbbind_desc_def
      scorer_save_def Let_def run_seq split: option.splits sum.splits file_content.splits)

lemma keeps_json_ops:
  "keeps g (read_json p)"
  "keeps g (write_json x p out)"
  by (auto simp: keeps_def read_json_def write_json_def run_seq
      split: option.splits sum.splits file_content.splits)

lemmas keeps_intros = keeps_basic keeps_bind keeps_seq keeps_model_ops keeps_scorer_ops keeps_json_ops

lemma keeps_set_loaded_attrs: "insensitive g \<Longrightarrow> keeps g (set_loaded_attrs kvs)"
  by (induction kvs rule: set_loaded_attrs.induct) (auto intro!: keeps_intros)

lemma keeps_report: "keeps g (report x sets)"
  by (induction x sets rule: report.induct) (auto intro!: keeps_intros)

lemma keeps_export_attrs: "insensitive g \<Longrightarrow> keeps g (export_attrs as out)"
  by (induction as out rule: export_attrs.induct) (auto intro!: keeps_intros)

lemma keeps_train_fast: "insensitive g \<Longrightarrow> keeps g (train_fast s p pv)"
  by (auto simp: train_fast_def intro!: keeps_intros keeps_set_loaded_attrs)

lemma keeps_fit_step: "insensitive g \<Longrightarrow> keeps g (fit_step x)"
  by (auto simp: fit_step_def intro!: keeps_intros split: option.splits)

lemma keeps_prediction_sets: "insensitive g \<Longrightarrow> keeps g (prediction_sets x)"
  by (auto simp: prediction_sets_def Let_def intro!: keeps_intros split: option.splits)

lemma keeps_train_slow:
  "insensitive g \<Longrightarrow> base_keeps x g \<Longrightarrow> keeps g (train_slow x p sf pv)"
  by (auto simp: train_slow_def intro!: keeps_intros keeps_fit_step keeps_prediction_sets
      keeps_report split: option.splits)

lemma keeps_train:
  assumes "insensitive g" and "base_keeps x g"
  shows "keeps g (train x h sf pv ig)"
proof (rule keepsI)
  fix st :: "adapter \<times> files"
  obtain s f where st: "st = (s, f)" by (cases st)
  show "g (fst (state (train x h sf pv ig st))) = g (fst st)"
    using keepsD [OF keeps_train_fast [OF assms(1)], of s _ pv "(s, f)"]
      keepsD [OF keeps_train_slow [OF assms], of _ sf pv "(s, f)"]
    by (simp add: st train_def)
qed

lemma keeps_gen_json:
  "insensitive g \<Longrightarrow> base_keeps x g \<Longrightarrow> keeps g (gen_json x h pv)"
  by (auto simp: gen_json_def intro!: keeps_intros keeps_train keeps_export_attrs
      split: option.splits)

lemma keeps_gen_training_data:
  "insensitive g \<Longrightarrow> base_keeps x g \<Longrightarrow> keeps g (gen_training_data x d vs h)"
  by (auto simp: gen_training_data_def Let_def intro!: keeps_intros)

lemma keeps_run_op:
  assumes "insensitive g" and "base_keeps x g"
  shows "g (fst (run_op x opn st)) = g (fst st)"
  by (cases opn)
    (simp_all add: keepsD keeps_train [OF assms] keeps_gen_json [OF assms]
      keeps_gen_training_data [OF assms])

lemma keeps_run_ops:
  assumes "insensitive g" and "base_keeps x g"
  shows "g (fst (run_ops x ops st)) = g (fst st)"
  by (induction ops arbitrary: st) (simp_all add: keeps_run_op [OF assms])

lemma fixed_part_train: "fixed_part (fst (state (train x h sf pv ig st))) = fixed_part (fst st)"
  by (rule keepsD [OF keeps_train [OF insensitive_fixed_part base_keeps_fixed_part]])



section \<open>Events that a program never causes\<close>

lemma neverI: "(\<And>st. \<not> list_ex P (events (m st))) \<Longrightarrow> never P m"
  by (simp add: never_def)

lemma neverD: "never P m \<Longrightarrow> \<not> list_ex P (events (m st))"
  unfolding never_def by blast

lemma never_basic:
  "never P (ret v)" "never P (raise e)" "never P (lift r)" "never P get_self"
  "never P (setattr_model k w)" "never P (getattr_model k)"
  by (simp_all add: never_def setattr_model_def getattr_model_def split: option.splits)

lemma never_emit: "\<not> P ev \<Longrightarrow> never P (emit ev)"
  by (simp add: never_def)

lemma never_bind:
  assumes "never P m" and "\<And>v. never P (k v)"
  shows "never P (bind m k)"
proof (rule neverI)
  fix st
  show "\<not> list_ex P (events (bind m k st))"
    using neverD [OF assms(1), of st] neverD [OF assms(2)]
    by (simp add: events_bind split: sum.splits)
qed

lemma never_seq: "never P m \<Longrightarrow> never P k \<Longrightarrow> never P (seq m k)"
  by (simp add: seq_def never_bind)


lemma never_model_calls:
  "\<not> P (Called_fit X) \<Longrightarrow> never P (model_fit x X y)"
  "\<not> P (Called_predict X) \<Longrightarrow> never P (model_predict x X)"
  by (auto simp: never_def model_fit_def model_predict_def events_seq split: sum.splits)

lemma never_scorer_calls:
  "\<not> P (Called_load_pdbbind_desc p ts v) \<Longrightarrow> never P (scorer_load_pdbbind_desc x p ts v)"
  "\<not> P (Called_save p) \<Longrightarrow> never P (scorer_save x p)"
  by (auto simp: never_def scorer_load_pdbbind_desc_def scorer_save_def Let_def events_seq
      split: sum.splits option.splits file_content.splits)

lemmas never_intros = never_basic never_emit never_bind never_seq never_model_calls
  never_scorer_calls

lemma never_report:
  assumes "\<And>n. \<not> P (Called_metrics n)" and "\<And>t. \<not> P (Printed t)"
  shows "never P (report x sets)"
  by (induction x sets rule: report.induct) (auto intro!: never_intros assms)


lemma never_train_slow:
  assumes "\<And>p ts v. \<not> P (Called_load_pdbbind_desc p ts v)"
    and "\<And>t. \<not> P (Printed t)"
    and "\<And>X. \<not> P (Called_fit X)"
    and "\<And>X. \<not> P (Called_predict X)"
    and "\<And>n. \<not> P (Called_metrics n)"
    and "\<And>p. \<not> P (Called_save p)"
  shows "never P (train_slow x p sf pv)"
  by (auto simp: train_slow_def fit_step_def prediction_sets_def Let_def
      intro!: never_intros never_report assms split: option.splits)

section \<open>The two branches of train: claims C2 and C3\<close>

lemma same_attrs: "\<exists>a. s = s\<lparr>model := (model s)\<lparr>attrs := a\<rparr>\<rparr>"
  by (rule exI [of _ "attrs (model s)"]) simp

lemma state_set_loaded_attrs:
  "\<exists>a. state (set_loaded_attrs kvs (s, f)) = (s\<lparr>model := (model s)\<lparr>attrs := a\<rparr>\<rparr>, f)"
proof (induction kvs arbitrary: s rule: set_loaded_attrs.induct)
  case 1
  show ?case by (simp add: same_attrs)
next
  case (2 k v kvs)
  show ?case
  proof (cases "convert_loaded v")
    case (Inl e)
    then show ?thesis by (simp add: state_bind same_attrs)
  next
    case (Inr v')
    obtain a where
      "state (set_loaded_attrs kvs (s\<lparr>model := (model s)\<lparr>attrs := (attrs (model s))(k \<mapsto> v')\<rparr>\<rparr>, f))
         = (s\<lparr>model := (model s)\<lparr>attrs := (attrs (model s))(k \<mapsto> v')\<rparr>\<rparr>
              \<lparr>model := (model (s\<lparr>model := (model s)\<lparr>attrs := (attrs (model s))(k \<mapsto> v')\<rparr>\<rparr>))\<lparr>attrs := a\<rparr>\<rparr>, f)"
      using "2.IH" by blast
    with Inr show ?thesis
      by (auto simp add: state_bind state_seq setattr_model_def)
  qed
qed

text \<open>
  A document whose values all convert: the entries, in their order, each set their key to
  the converted value, and the rest of the instance is as before.
\<close>

lemma set_loaded_attrs_all:
  assumes "list_all (\<lambda>kv. \<not> isl (convert_loaded (snd kv))) d"
  shows "result (set_loaded_attrs d (s, f)) = Inr ()
    \<and> state (set_loaded_attrs d (s, f))
        = (s\<lparr>model := (model s)\<lparr>attrs :=
              fold (\<lambda>kv m. m(fst kv \<mapsto> projr (convert_loaded (snd kv)))) d (attrs (model s))\<rparr>\<rparr>, f)"
  using assms
proof (induction d arbitrary: s rule: set_loaded_attrs.induct)
  case 1
  show ?case by simp
next
  case (2 k v kvs)
  from "2.prems" obtain v' where v': "convert_loaded v = Inr v'"
    by (cases "convert_loaded v") simp_all
  have rest: "list_all (\<lambda>kv. \<not> isl (convert_loaded (snd kv))) kvs"
    using "2.prems" by simp
  show ?case
    using "2.IH" [OF rest, of "s\<lparr>model := (model s)\<lparr>attrs := (attrs (model s))(k \<mapsto> v')\<rparr>\<rparr>"]
    by (simp add: v' result_bind result_seq state_bind state_seq setattr_model_def
        cong: if_cong)
qed

lemma state_train_fast:
  "\<exists>a. state (train_fast s0 p pv (s, f)) = (s\<lparr>model := (model s)\<lparr>attrs := a\<rparr>\<rparr>, f)"
proof -
  show ?thesis
  proof (cases "result (read_json p (s, f))")
    case (Inl e)
    then show ?thesis by (simp add: train_fast_def state_seq state_bind same_attrs)
  next
    case (Inr d)
    then show ?thesis using state_set_loaded_attrs [of d s f]
      by (auto simp add: train_fast_def state_seq state_bind split: sum.splits)
  qed
qed




lemma train_uses_json:
  "uses_json x s f h pv ig \<Longrightarrow>
   train x h sf pv ig (s, f) = train_fast s (train_json_path x s h pv) pv (s, f)"
  by (simp add: train_def)

lemma train_not_uses_json:
  "\<not> uses_json x s f h pv ig \<Longrightarrow>
   train x h sf pv ig (s, f) = train_slow x (train_desc_path x s h) sf pv (s, f)"
  by (simp add: train_def)

lemma train_cases:
  "(list_ex is_loader_call (events (train x h sf pv ig (s, f))) \<longleftrightarrow> \<not> uses_json x s f h pv ig)
   \<and> (list_ex is_json_read (events (train x h sf pv ig (s, f))) \<longleftrightarrow> uses_json x s f h pv ig)
   \<and> (uses_json x s f h pv ig
      \<longrightarrow> events (train x h sf pv ig (s, f))
            = [Printed (loading_message s pv), Read_json (train_json_path x s h pv)]
        \<and> data (fst (state (train x h sf pv ig (s, f)))) = data s
        \<and> snd (state (train x h sf pv ig (s, f))) = f)"
proof (cases "uses_json x s f h pv ig")
  case True
  obtain a where "state (train_fast s (train_json_path x s h pv) pv (s, f))
      = (s\<lparr>model := (model s)\<lparr>attrs := a\<rparr>\<rparr>, f)"
    using state_train_fast by blast
  with True show ?thesis by (simp add: train_uses_json events_train_fast)
next
  case False
  obtain rest where "events (train_slow x (train_desc_path x s h) sf pv (s, f))
      = Called_load_pdbbind_desc (train_desc_path x s h) [''general'', ''refined''] pv # rest"
    using events_train_slow by blast
  moreover have "\<not> list_ex is_json_read (events (train_slow x (train_desc_path x s h) sf pv (s, f)))"
    by (rule neverD [OF never_train_slow]) simp_all
  ultimately show ?thesis using False by (simp add: train_not_uses_json)
qed


lemma example_adapter_linear:
  "version (example_adapter nj ''linear'') = ''linear''"
  "depth_protein (example_adapter nj ''linear'') = 5"
  "depth_ligand (example_adapter nj ''linear'') = 1"
  "size_bits (example_adapter nj ''linear'') = 65536"
  "cls (model (example_adapter nj ''linear'')) = SGDRegressor"
  "attrs (model (example_adapter nj ''linear'')) = Map.empty"
  "data (example_adapter nj ''linear'') = None"
  by (simp_all add: example_adapter_def PLECscore_init_def Let_def make_model_def run_seq run_bind)

lemma example_json_path:
  "train_json_path example_ext (example_adapter nj ''linear'') (Some ''h'') 2016
     = ''h/plecscore_linear_p5_l1_s65536_pdbbind2016.json''"
  by (simp add: train_json_path_def train_home_def json_name_def example_adapter_linear
      str_int_values path_join_def)

lemma example_desc_path:
  "train_desc_path example_ext (example_adapter nj ''linear'') (Some ''h'')
     = ''h/plecscore_descs_p5_l1_s65536.csv''"
  by (simp add: train_desc_path_def train_home_def desc_name_def example_adapter_linear
      str_int_values path_join_def)


text \<open>
  The two branches of \<^verbatim>\<open>train\<close> and what they return: the branch that reads the document
  returns \<^verbatim>\<open>None\<close> and never saves; the branch that trains returns the path it saved to.
\<close>

lemma train_fast_returns_none:
  assumes "version s = ''linear''" and "isfile f (train_json_path x s h pv)" and "\<not> ig"
    and "result (train x h sf pv ig (s, f)) = Inr r"
  shows "r = None \<and> \<not> list_ex is_save_call (events (train x h sf pv ig (s, f)))"
  using assms result_train_fast [of s "train_json_path x s h pv" pv "(s, f)"]
  by (cases r) (simp_all add: train_uses_json uses_json_def isfile_def events_train_fast)

lemma result_scorer_save:
  "result (scorer_save x p st) = Inr q \<Longrightarrow> q = p"
  by (auto simp: scorer_save_def Let_def result_seq split: prod.splits if_splits)

lemma result_seqE: "result (seq m k st) = Inr r \<Longrightarrow> \<exists>st'. result (k st') = Inr r"
  by (auto simp: result_seq split: sum.splits)

lemma result_bindE: "result (bind m k st) = Inr r \<Longrightarrow> \<exists>v st'. result (k v st') = Inr r"
  by (auto simp: result_bind split: sum.splits)

lemma result_save_step:
  assumes "result ((case sf of
              None \<Rightarrow>
                bind get_self (\<lambda>s.
                bind (scorer_save x
                        (pickle_name (version s) (str_int (depth_protein s))
                           (str_int (depth_ligand s)) (str_int pv) (str_int (size_bits s))))
                  (\<lambda>p. ret (Some p)))
            | Some given \<Rightarrow> bind (scorer_save x given) (\<lambda>p. ret (Some p))) st) = Inr r"
  shows "r = Some (case sf of
                     None \<Rightarrow> pickle_name (version (fst st)) (str_int (depth_protein (fst st)))
                               (str_int (depth_ligand (fst st))) (str_int pv)
                               (str_int (size_bits (fst st)))
                   | Some given \<Rightarrow> given)"
  using assms
  by (auto simp: result_bind dest!: result_scorer_save split: sum.splits option.splits)

lemma train_slow_returns_path:
  assumes "result (train_slow x p sf pv st) = Inr r"
  shows "\<exists>s' :: adapter. r = Some (case sf of
                     None \<Rightarrow> pickle_name (version s') (str_int (depth_protein s'))
                               (str_int (depth_ligand s')) (str_int pv) (str_int (size_bits s'))
                   | Some given \<Rightarrow> given)"
proof -
  from assms obtain st1 where
    "result (seq (bind get_self (\<lambda>s. emit (Printed (training_message s pv))))
       (seq (fit_step x)
       (bind (prediction_sets x) (\<lambda>sets.
        seq (report x sets)
          (case sf of
             None \<Rightarrow>
               bind get_self (\<lambda>s.
               bind (scorer_save x
                       (pickle_name (version s) (str_int (depth_protein s))
                          (str_int (depth_ligand s)) (str_int pv) (str_int (size_bits s))))
                 (\<lambda>p. ret (Some p)))
           | Some given \<Rightarrow> bind (scorer_save x given) (\<lambda>p. ret (Some p)))))) st1) = Inr r"
    unfolding train_slow_def by (blast dest: result_seqE)
  then obtain st2 where
    "result (seq (fit_step x)
       (bind (prediction_sets x) (\<lambda>sets.
        seq (report x sets)
          (case sf of
             None \<Rightarrow>
               bind get_self (\<lambda>s.
               bind (scorer_save x
                       (pickle_name (version s) (str_int (depth_protein s))
                          (str_int (depth_ligand s)) (str_int pv) (str_int (size_bits s))))
                 (\<lambda>p. ret (Some p)))
           | Some given \<Rightarrow> bind (scorer_save x given) (\<lambda>p. ret (Some p))))) st2) = Inr r"
    by (blast dest: result_seqE)
  then obtain st3 where
    "result (bind (prediction_sets x) (\<lambda>sets.
        seq (report x sets)
          (case sf of
             None \<Rightarrow>
               bind get_self (\<lambda>s.
               bind (scorer_save x
                       (pickle_name (version s) (str_int (depth_protein s))
                          (str_int (depth_ligand s)) (str_int pv) (str_int (size_bits s))))
                 (\<lambda>p. ret (Some p)))
           | Some given \<Rightarrow> bind (scorer_save x given) (\<lambda>p. ret (Some p)))) st3) = Inr r"
    by (blast dest: result_seqE)
  then obtain sets st4 where
    "result (seq (report x sets)
          (case sf of
             None \<Rightarrow>
               bind get_self (\<lambda>s.
               bind (scorer_save x
                       (pickle_name (version s) (str_int (depth_protein s))
                          (str_int (depth_ligand s)) (str_int pv) (str_int (size_bits s))))
                 (\<lambda>p. ret (Some p)))
           | Some given \<Rightarrow> bind (scorer_save x given) (\<lambda>p. ret (Some p))) st4) = Inr r"
    by (blast dest: result_bindE)
  then obtain st5 where
    "result ((case sf of
             None \<Rightarrow>
               bind get_self (\<lambda>s.
               bind (scorer_save x
                       (pickle_name (version s) (str_int (depth_protein s))
                          (str_int (depth_ligand s)) (str_int pv) (str_int (size_bits s))))
                 (\<lambda>p. ret (Some p)))
           | Some given \<Rightarrow> bind (scorer_save x given) (\<lambda>p. ret (Some p))) st5) = Inr r"
    by (blast dest: result_seqE)
  then have "r = Some (case sf of
                     None \<Rightarrow> pickle_name (version (fst st5)) (str_int (depth_protein (fst st5)))
                               (str_int (depth_ligand (fst st5))) (str_int pv)
                               (str_int (size_bits (fst st5)))
                   | Some given \<Rightarrow> given)"
    by (rule result_save_step)
  then show ?thesis by blast
qed

lemma example_uses_json:
  "uses_json example_ext (example_adapter nj ''linear'') example_json (Some ''h'') 2016 False"
  by (simp add: uses_json_def isfile_def example_adapter_linear example_json_path example_json_def)

text \<open>
  Claim C3 says that every call of \<^verbatim>\<open>train\<close> returns the path of the persisted artifact. For
  the linear instance of the constructor's defaults, with the parameter document present
  below \<open>h\<close>, the call \<^verbatim>\<open>train(home_dir='h')\<close> returns \<^verbatim>\<open>None\<close>, \<^verbatim>\<open>save\<close> is not called and
  no file is written.
\<close>

theorem train_fast_path_returns_none:
  "result (train example_ext (Some ''h'') None 2016 False
             (example_adapter (- 1) ''linear'', example_json)) = Inr None
   \<and> \<not> list_ex is_save_call
         (events (train example_ext (Some ''h'') None 2016 False
                    (example_adapter (- 1) ''linear'', example_json)))
   \<and> snd (state (train example_ext (Some ''h'') None 2016 False
                    (example_adapter (- 1) ''linear'', example_json))) = example_json"
proof -
  let ?st = "(example_adapter (- 1) ''linear'', example_json)"
  let ?p = "''h/plecscore_linear_p5_l1_s65536_pdbbind2016.json''"
  have eq: "train example_ext (Some ''h'') None 2016 False ?st
      = train_fast (example_adapter (- 1) ''linear'') ?p 2016 ?st"
    using train_uses_json [OF example_uses_json] by (simp add: example_json_path)
  have res: "result (train_fast (example_adapter (- 1) ''linear'') ?p 2016 ?st) = Inr None"
    by (simp add: train_fast_def result_seq result_bind read_json_def example_json_def
        example_csv_def convert_loaded_def isinstance_def item0_def)
  obtain a where "state (train_fast (example_adapter (- 1) ''linear'') ?p 2016 ?st)
      = ((example_adapter (- 1) ''linear'')\<lparr>model := (model (example_adapter (- 1) ''linear''))\<lparr>attrs := a\<rparr>\<rparr>,
         example_json)"
    using state_train_fast by blast
  with eq res show ?thesis by (simp add: events_train_fast)
qed

section \<open>Exporting parameters: claims C10, C6 and C1\<close>

lemma convert_attr_fails:
  "convert_attr v = Inl (TypeError ''isinstance() arg 2 must be a type or tuple of types'')"
  by (simp add: convert_attr_def isinstance_def np_array_def)

lemma state_getattr_model [simp]: "state (getattr_model k st) = st"
  by (simp add: getattr_model_def split: prod.splits option.splits)

lemma events_getattr_model [simp]: "events (getattr_model k st) = []"
  by (simp add: getattr_model_def split: prod.splits option.splits)

lemma state_export_attrs [simp]: "state (export_attrs as out st) = st"
  by (induction as out arbitrary: st rule: export_attrs.induct)
    (simp_all add: state_bind split: sum.splits)

lemma events_export_attrs [simp]: "events (export_attrs as out st) = []"
  by (induction as out arbitrary: st rule: export_attrs.induct)
    (simp_all add: events_bind split: sum.splits)

lemma result_export_attrs:
  "result (export_attrs (a # as) out st) =
     (case result (getattr_model a st) of
        Inl e \<Rightarrow> Inl e
      | Inr v \<Rightarrow> Inl (TypeError ''isinstance() arg 2 must be a type or tuple of types''))"
  by (simp add: result_bind convert_attr_fails split: sum.splits)

lemma attributes_for_nonempty: "attributes_for m = Some as \<Longrightarrow> as \<noteq> []"
  by (auto simp: attributes_for_def split: if_splits)

lemma export_attrs_fails: "as \<noteq> [] \<Longrightarrow> isl (result (export_attrs as out st))"
  by (cases as) (simp_all add: result_export_attrs del: export_attrs.simps split: sum.splits)

text \<open>
  After the inner \<^verbatim>\<open>train\<close> call \<^verbatim>\<open>gen_json\<close> changes nothing and causes no event, and it
  always raises: the list of attributes is unbound or not empty, and the conversion of
  the first attribute raises.
\<close>

lemma gen_json_after_train:
  "events (gen_json x h pv st) = events (train x h None 2016 False st)
   \<and> state (gen_json x h pv st) = state (train x h None 2016 False st)
   \<and> isl (result (gen_json x h pv st))"
proof (cases "result (train x h None 2016 False st)")
  case (Inl e)
  then show ?thesis by (simp add: gen_json_def run_bind)
next
  case (Inr r)
  let ?st = "state (train x h None 2016 False st)"
  show ?thesis
  proof (cases "attributes_for (model (fst ?st))")
    case None
    with Inr show ?thesis by (simp add: gen_json_def run_bind)
  next
    case (Some as)
    then have "isl (result (export_attrs as [] ?st))"
      by (simp add: export_attrs_fails attributes_for_nonempty)
    then obtain e where "result (export_attrs as [] ?st) = Inl e"
      by (cases "result (export_attrs as [] ?st)") simp_all
    with Inr Some show ?thesis by (simp add: gen_json_def run_bind)
  qed
qed


lemma train_never_writes_json: "\<not> list_ex is_json_write (events (train x h sf pv ig st))"
proof -
  obtain s f where st: "st = (s, f)" by (cases st)
  show ?thesis
  proof (cases "uses_json x s f h pv ig")
    case True
    then show ?thesis by (simp add: st train_uses_json events_train_fast)
  next
    case False
    have "\<not> list_ex is_json_write (events (train_slow x (train_desc_path x s h) sf pv (s, f)))"
      by (rule neverD [OF never_train_slow]) simp_all
    with False show ?thesis by (simp add: st train_not_uses_json)
  qed
qed

text \<open>
  Without a home directory \<^verbatim>\<open>train\<close> works in the directory beside the module.
\<close>

lemma default_home_not_empty: "default_home x \<noteq> []"
  by (simp add: default_home_def path_join_def)

lemma train_without_home_dir:
  "train x None sf pv ig st = train x (Some (path_join (module_dir x) ''PLECscore'')) sf pv ig st"
proof -
  let ?D = "Some (path_join (module_dir x) ''PLECscore'')"
  have home: "train_home x None = train_home x ?D"
    using default_home_not_empty [of x] by (simp add: train_home_def default_home_def)
  have j: "train_json_path x s None pv = train_json_path x s ?D pv" for s
    by (simp add: train_json_path_def home)
  have d: "train_desc_path x s None = train_desc_path x s ?D" for s
    by (simp add: train_desc_path_def home)
  have u: "uses_json x s f None pv ig = uses_json x s f ?D pv ig" for s f
    by (simp add: uses_json_def j)
  show ?thesis
    unfolding train_def j d u by (rule refl)
qed

text \<open>
  Claim C6. On an instance of the random-forest variant \<^verbatim>\<open>gen_json\<close> raises and neither
  opens nor writes a parameter document; the files are as the inner \<^verbatim>\<open>train\<close> call left
  them. When that call returns, the exception is the unbound name \<^verbatim>\<open>attributes\<close>.
\<close>

theorem gen_json_random_forest_fails:
  assumes "version s = ''rf''" and "cls (model s) = RandomForestRegressor"
  shows "isl (result (gen_json x h pv (s, f)))
    \<and> \<not> list_ex is_json_write (events (gen_json x h pv (s, f)))
    \<and> snd (state (gen_json x h pv (s, f))) = snd (state (train x h None 2016 False (s, f)))
    \<and> (\<not> isl (result (train x h None 2016 False (s, f)))
        \<longrightarrow> result (gen_json x h pv (s, f)) = Inl (UnboundLocalError ''attributes''))"
proof -
  let ?st = "state (train x h None 2016 False (s, f))"
  have "fixed_part (fst ?st) = fixed_part s"
    using fixed_part_train [of x h None 2016 False "(s, f)"] by simp
  then have "cls (model (fst ?st)) = RandomForestRegressor"
    using assms(2) by (simp add: fixed_part_def)
  then have unbound: "attributes_for (model (fst ?st)) = None"
    by (simp add: attributes_for_def)
  have "\<not> isl (result (train x h None 2016 False (s, f)))
        \<longrightarrow> result (gen_json x h pv (s, f)) = Inl (UnboundLocalError ''attributes'')"
    using unbound
    by (cases "result (train x h None 2016 False (s, f))") (simp_all add: gen_json_def run_bind)
  then show ?thesis
    using gen_json_after_train [of x h pv "(s, f)"]
      train_never_writes_json [of x h None 2016 False "(s, f)"]
    by simp
qed


lemma example_adapter_rf:
  "version (example_adapter nj ''rf'') = ''rf''"
  "depth_protein (example_adapter nj ''rf'') = 5"
  "depth_ligand (example_adapter nj ''rf'') = 1"
  "size_bits (example_adapter nj ''rf'') = 65536"
  "cls (model (example_adapter nj ''rf'')) = RandomForestRegressor"
  "attrs (model (example_adapter nj ''rf'')) = Map.empty"
  "data (example_adapter nj ''rf'') = None"
  by (simp_all add: example_adapter_def PLECscore_init_def Let_def make_model_def run_seq run_bind)

lemma example_no_json:
  "\<not> uses_json example_ext (example_adapter nj ''linear'') example_csv (Some ''h'') 2016 False"
  by (simp add: uses_json_def isfile_def example_json_path example_csv_def)

lemmas example_train_defs =
  train_slow_def scorer_load_pdbbind_desc_def fit_step_def model_fit_def prediction_sets_def
  model_predict_def scorer_save_def getattr_model_def toarray_def example_ext_def example_csv_def
  pickle_name_def Let_def

lemma example_train_linear:
  "result (train example_ext (Some ''h'') None 2016 False
             (example_adapter (- 1) ''linear'', example_csv))
     = Inr (Some ''PLEClinear_p5_l1_pdbbind2016_s65536.pickle'')"
  "attrs (model (fst (state (train example_ext (Some ''h'') None 2016 False
             (example_adapter (- 1) ''linear'', example_csv))))) ''coef_''
     = Some (NdArray (PyList [PyFloat (Decimal 5 (- 1)), PyFloat (Decimal 25 (- 2))]))"
  "snd (state (train example_ext (Some ''h'') None 2016 False
             (example_adapter (- 1) ''linear'', example_csv)))
       ''h/plecscore_linear_p5_l1_s65536_pdbbind2016.json'' = None"
  by (simp_all add: train_def uses_json_def isfile_def example_adapter_linear train_desc_path_def
      train_json_path_def json_name_def train_home_def desc_name_def path_join_def
      example_train_defs run_seq run_bind str_int_values)

lemma example_train_rf:
  "result (train example_ext (Some ''h'') None 2016 False
             (example_adapter (- 1) ''rf'', example_csv))
     = Inr (Some ''PLECrf_p5_l1_pdbbind2016_s65536.pickle'')"
  by (simp add: train_def uses_json_def isfile_def example_adapter_rf train_desc_path_def train_home_def
      desc_name_def path_join_def
      example_train_defs run_seq run_bind str_int_values)


text \<open>
  The theorem on the random-forest instance of the constructor's defaults, with the
  descriptor CSV present: training succeeds and \<^verbatim>\<open>gen_json\<close> raises the unbound name.
\<close>

theorem gen_json_random_forest_fails_witness:
  "version (example_adapter (- 1) ''rf'') = ''rf''
   \<and> cls (model (example_adapter (- 1) ''rf'')) = RandomForestRegressor
   \<and> result (gen_json example_ext (Some ''h'') 2016 (example_adapter (- 1) ''rf'', example_csv))
       = Inl (UnboundLocalError ''attributes'')
   \<and> \<not> list_ex is_json_write
         (events (gen_json example_ext (Some ''h'') 2016 (example_adapter (- 1) ''rf'', example_csv)))"
  using gen_json_random_forest_fails [of "example_adapter (- 1) ''rf''" example_ext "Some ''h''"
          2016 example_csv]
  by (simp add: example_adapter_rf example_train_rf)

lemma result_getattr_model:
  "attrs (model (fst st)) k = Some v \<Longrightarrow> result (getattr_model k st) = Inr v"
  by (cases st) (simp add: getattr_model_def)

text \<open>
  Claim C1 says that the parameters \<^verbatim>\<open>gen_json\<close> exports are reproduced when \<^verbatim>\<open>train\<close> reloads
  them. For the linear instance of the constructor's defaults, with the descriptor CSV
  present below \<open>h\<close>, the inner training succeeds and sets \<^verbatim>\<open>coef_\<close>, and then
  \<^verbatim>\<open>gen_json(home_dir='h')\<close> raises the TypeError of \<^verbatim>\<open>isinstance(attr, np.array)\<close>: no
  document is opened or written, and no file exists at the path of the document.
\<close>

theorem gen_json_linear_raises:
  "result (train example_ext (Some ''h'') None 2016 False
             (example_adapter (- 1) ''linear'', example_csv))
     = Inr (Some ''PLEClinear_p5_l1_pdbbind2016_s65536.pickle'')
   \<and> result (gen_json example_ext (Some ''h'') 2016 (example_adapter (- 1) ''linear'', example_csv))
       = Inl (TypeError ''isinstance() arg 2 must be a type or tuple of types'')
   \<and> \<not> list_ex is_json_write
         (events (gen_json example_ext (Some ''h'') 2016
                    (example_adapter (- 1) ''linear'', example_csv)))
   \<and> snd (state (gen_json example_ext (Some ''h'') 2016
                    (example_adapter (- 1) ''linear'', example_csv)))
         ''h/plecscore_linear_p5_l1_s65536_pdbbind2016.json'' = None"
proof -
  let ?st0 = "(example_adapter (- 1) ''linear'', example_csv)"
  let ?tr = "train example_ext (Some ''h'') None 2016 False ?st0"
  have "fixed_part (fst (state ?tr)) = fixed_part (example_adapter (- 1) ''linear'')"
    using fixed_part_train [of example_ext "Some ''h''" None 2016 False ?st0] by simp
  then have "cls (model (fst (state ?tr))) = SGDRegressor"
    by (simp add: fixed_part_def example_adapter_linear)
  then have attributes: "attributes_for (model (fst (state ?tr))) = Some [''coef_'', ''intercept_'']"
    by (simp add: attributes_for_def)
  have coef: "result (getattr_model ''coef_'' (state ?tr))
      = Inr (NdArray (PyList [PyFloat (Decimal 5 (- 1)), PyFloat (Decimal 25 (- 2))]))"
    using example_train_linear(2) by (rule result_getattr_model)
  have "result (gen_json example_ext (Some ''h'') 2016 ?st0)
      = Inl (TypeError ''isinstance() arg 2 must be a type or tuple of types'')"
    using attributes coef
    by (simp add: gen_json_def result_bind state_bind example_train_linear(1)
        result_export_attrs del: export_attrs.simps)
  then show ?thesis
    using gen_json_after_train [of example_ext "Some ''h''" 2016 ?st0]
      train_never_writes_json [of example_ext "Some ''h''" None 2016 False ?st0]
    by (simp add: example_train_linear)
qed

lemma example_train_rf_beside_module:
  "result (train example_ext None None 2016 False
             (example_adapter (- 1) ''rf'', example_module_csv))
     = Inr (Some ''PLECrf_p5_l1_pdbbind2016_s65536.pickle'')"
  by (simp add: train_def uses_json_def isfile_def example_adapter_rf train_desc_path_def
      train_home_def default_home_def desc_name_def path_join_def example_module_csv_def
      example_train_defs run_seq run_bind str_int_values)

text \<open>
  Claim C10, as amended. For every instance, \<^verbatim>\<open>gen_json\<close> called with \<^verbatim>\<open>home_dir=None\<close> raises
  and neither opens nor writes a parameter document: its events and the state it leaves
  are those of the inner \<^verbatim>\<open>train\<close> call, which works in the directory beside the module.
  The exception need not be that of building the path of the document: on a random-forest
  instance whose training returns it is the unbound name \<^verbatim>\<open>attributes\<close>, raised before the
  path is built.
\<close>

theorem gen_json_without_home_dir_raises:
  "isl (result (gen_json x None pv (s, f)))
   \<and> \<not> list_ex is_json_write (events (gen_json x None pv (s, f)))
   \<and> events (gen_json x None pv (s, f))
       = events (train x (Some (path_join (module_dir x) ''PLECscore'')) None 2016 False (s, f))
   \<and> state (gen_json x None pv (s, f))
       = state (train x (Some (path_join (module_dir x) ''PLECscore'')) None 2016 False (s, f))
   \<and> (cls (model s) = RandomForestRegressor
        \<and> \<not> isl (result (train x (Some (path_join (module_dir x) ''PLECscore'')) None 2016
                            False (s, f)))
      \<longrightarrow> result (gen_json x None pv (s, f)) = Inl (UnboundLocalError ''attributes''))"
proof -
  let ?T = "train x None None 2016 False (s, f)"
  have same: "train x (Some (path_join (module_dir x) ''PLECscore'')) None 2016 False (s, f) = ?T"
    by (rule train_without_home_dir [symmetric])
  have "result (gen_json x None pv (s, f)) = Inl (UnboundLocalError ''attributes'')"
    if rf: "cls (model s) = RandomForestRegressor" and ok: "\<not> isl (result ?T)"
  proof -
    have "fixed_part (fst (state ?T)) = fixed_part s"
      using fixed_part_train [of x None None 2016 False "(s, f)"] by simp
    then have "attributes_for (model (fst (state ?T))) = None"
      using rf by (simp add: fixed_part_def attributes_for_def)
    then show ?thesis
      using ok by (cases "result ?T") (simp_all add: gen_json_def run_bind)
  qed
  then show ?thesis
    using gen_json_after_train [of x None pv "(s, f)"]
      train_never_writes_json [of x None None 2016 False "(s, f)"]
    by (simp add: same)
qed

text \<open>
  The theorem on the random-forest instance of the constructor's defaults, with the
  descriptor CSV in the directory beside the module: training returns and \<^verbatim>\<open>gen_json()\<close>
  raises the unbound name.
\<close>

theorem gen_json_without_home_dir_raises_witness:
  "cls (model (example_adapter (- 1) ''rf'')) = RandomForestRegressor
   \<and> \<not> isl (result (train example_ext (Some (path_join (module_dir example_ext) ''PLECscore''))
                        None 2016 False (example_adapter (- 1) ''rf'', example_module_csv)))
   \<and> result (gen_json example_ext None 2016 (example_adapter (- 1) ''rf'', example_module_csv))
       = Inl (UnboundLocalError ''attributes'')
   \<and> \<not> list_ex is_json_write
         (events (gen_json example_ext None 2016
                    (example_adapter (- 1) ''rf'', example_module_csv)))"
  using gen_json_without_home_dir_raises [of example_ext 2016 "example_adapter (- 1) ''rf''"
          example_module_csv]
    example_train_rf_beside_module
    train_never_writes_json [of example_ext None None 2016 False
      "(example_adapter (- 1) ''rf'', example_module_csv)"]
  by (simp add: example_adapter_rf train_without_home_dir [symmetric])

text \<open>
  Claim C10 as stated says that the call fails because building the path of the document
  from \<^verbatim>\<open>None\<close> raises. On the random-forest instance of the constructor's defaults, with the
  descriptor CSV in the directory beside the module, the inner training returns and the
  call raises the unbound name \<^verbatim>\<open>attributes\<close>, which is not the error of that join; with the
  directory \<open>h\<close> given and the CSV there, it raises the same.
\<close>

theorem gen_json_fails_before_path:
  "result (train example_ext None None 2016 False
             (example_adapter (- 1) ''rf'', example_module_csv))
     = Inr (Some ''PLECrf_p5_l1_pdbbind2016_s65536.pickle'')
   \<and> result (gen_json example_ext None 2016 (example_adapter (- 1) ''rf'', example_module_csv))
       = Inl (UnboundLocalError ''attributes'')
   \<and> path_join_opt None (json_name (example_adapter (- 1) ''rf'') 2016)
       = Inl (TypeError ''expected str, bytes or os.PathLike object, not NoneType'')
   \<and> result (gen_json example_ext (Some ''h'') 2016 (example_adapter (- 1) ''rf'', example_csv))
       = Inl (UnboundLocalError ''attributes'')"
proof -
  let ?st = "(example_adapter (- 1) ''rf'', example_module_csv)"
  let ?T = "train example_ext None None 2016 False ?st"
  have "fixed_part (fst (state ?T)) = fixed_part (example_adapter (- 1) ''rf'')"
    using fixed_part_train [of example_ext None None 2016 False ?st] by simp
  then have "attributes_for (model (fst (state ?T))) = None"
    by (simp add: fixed_part_def attributes_for_def example_adapter_rf)
  then have none: "result (gen_json example_ext None 2016 ?st) = Inl (UnboundLocalError ''attributes'')"
    by (simp add: gen_json_def run_bind example_train_rf_beside_module)
  let ?st' = "(example_adapter (- 1) ''rf'', example_csv)"
  let ?T' = "train example_ext (Some ''h'') None 2016 False ?st'"
  have "fixed_part (fst (state ?T')) = fixed_part (example_adapter (- 1) ''rf'')"
    using fixed_part_train [of example_ext "Some ''h''" None 2016 False ?st'] by simp
  then have "attributes_for (model (fst (state ?T'))) = None"
    by (simp add: fixed_part_def attributes_for_def example_adapter_rf)
  then have some: "result (gen_json example_ext (Some ''h'') 2016 ?st') = Inl (UnboundLocalError ''attributes'')"
    by (simp add: gen_json_def run_bind example_train_rf)
  show ?thesis
    using none some by (simp add: example_train_rf_beside_module path_join_opt_def)
qed

section \<open>The base scorer's save and the six fields: claim C9 as stated\<close>

lemma example_adapter_on_fields:
  "config (example_adapter_on prot) = (Some prot, - 1, ''linear'', 5, 1, 65536)"
  "data (example_adapter_on prot) = None"
  by (simp_all add: example_adapter_on_def config_def PLECscore_init_def Let_def make_model_def
      run_seq run_bind)


section \<open>Loading without a file name: claim C5\<close>

lemma load_without_filename:
  assumes "scorer_class_attr x ''version'' = None"
  shows "result (load x None v pv f) = Inl (AttributeError ''version'')"
    and "events (load x None v pv f) = []"
    and "state (load x None v pv f) = f"
  using assms by (simp_all add: load_def run_bind class_fname_def class_attr_def)

text \<open>
  Claim C5 says that \<^verbatim>\<open>load\<close> without a file name probes two paths and trains when neither
  exists. Where the base class has no attribute \<^verbatim>\<open>version\<close>, \<^verbatim>\<open>load()\<close> raises an
  AttributeError at \<^verbatim>\<open>self.version\<close>: nothing is probed, constructed or trained.
\<close>

theorem load_default_raises:
  "result (load example_ext None ''linear'' 2016 example_csv) = Inl (AttributeError ''version'')
   \<and> events (load example_ext None ''linear'' 2016 example_csv) = []
   \<and> state (load example_ext None ''linear'' 2016 example_csv) = example_csv"
  by (simp add: load_without_filename example_ext_def)

end
